theory Spec2Isabelle
  imports Complex_Main
begin

section \<open>Data model of \<open>src/components/MagicMirror.tsx\<close>\<close>

text \<open>
  The component keeps its scheduler in two refs: \<open>nextStartTimeRef\<close> (the playback cursor,
  a JavaScript number read against \<open>AudioContext.currentTime\<close>) and \<open>audioSourcesRef\<close>
  (a \<open>Set\<close> of \<open>AudioBufferSourceNode\<close> objects). Times are modelled as \<open>real\<close>; the
  code only applies \<open>Math.max\<close>, \<open>+\<close> and comparisons to them.
\<close>

datatype AppState = IDLE | CONNECTING | ACTIVE | ERROR

datatype error = DecodeFailure | InvalidStateError | NotAllowedError

text \<open>The result of the \<open>async\<close> handler: its promise resolves, or rejects with the
  exception that escaped the body.\<close>

datatype outcome = Resolved | Rejected error

subsection \<open>\<open>LiveServerMessage\<close>, as far as the handler reads it\<close>

record Blob =
  data :: "string option"

record Part =
  inlineData :: "Blob option"

record Content =
  parts :: "Part list option"

record LiveServerContent =
  modelTurn :: "Content option"
  interrupted :: "bool option"

record LiveServerMessage =
  serverContent :: "LiveServerContent option"

subsection \<open>Web Audio objects\<close>

record AudioContext =
  currentTime :: real
  isClosed :: bool

text \<open>An \<open>AudioBuffer\<close> has a length in sample-frames and a sample rate; its
  \<open>duration\<close> attribute is their quotient, in seconds.\<close>

record AudioBuffer =
  frames :: nat
  sampleRate :: nat

definition duration :: "AudioBuffer \<Rightarrow> real" where
  "duration b = real (frames b) / real (sampleRate b)"

text \<open>An \<open>AudioBufferSourceNode\<close>: the buffer assigned to it, the argument of \<open>start\<close>
  once it was called, whether \<open>stop\<close> was called with success, and whether its
  \<open>ended\<close> event was delivered.\<close>

record AudioBufferSourceNode =
  buffer :: AudioBuffer
  startTime :: "real option"
  stopCalled :: bool
  endedFired :: bool

type_synonym handle = nat

type_synonym MediaStream = "nat list"

record Session =
  sessionId :: nat
  closeCalled :: bool

subsection \<open>What the component calls but does not define\<close>

text \<open>
  \<open>decodeAudio\<close> and \<open>decodeAudioData\<close> are imported from \<open>../utils/audioUtils\<close>, and
  \<open>AudioBufferSourceNode.stop\<close> is the browser's. They are parameters of the model:
  each decoder returns its value or throws, and \<open>stopThrows\<close> says for which nodes
  \<open>stop()\<close> throws. Every theorem below holds for each choice of them.
\<close>

record platform =
  decodeAudio :: "string \<Rightarrow> error + nat list"
  decodeAudioData :: "nat list \<Rightarrow> AudioContext \<Rightarrow> nat \<Rightarrow> nat \<Rightarrow> error + AudioBuffer"
  stopThrows :: "AudioBufferSourceNode \<Rightarrow> bool"

subsection \<open>The component's state\<close>

text \<open>
  The React state, the refs of the component, and the browser objects the refs point to:
  the source nodes created so far (a store indexed by handle, \<open>nextHandle\<close> the next
  fresh one), the media tracks that are live, and the interval timers that are active.
  \<open>audioSourcesRef\<close> lists the handles of the \<open>Set\<close> in insertion order.
\<close>

record mirror =
  appState :: AppState
  volumeLevel :: real
  streamRef :: "MediaStream option"
  inputAudioContextRef :: "AudioContext option"
  outputAudioContextRef :: "AudioContext option"
  nextStartTimeRef :: real
  audioSourcesRef :: "handle list"
  sessionPromiseRef :: "Session option"
  activeSessionRef :: "Session option"
  videoIntervalRef :: "nat option"
  nodes :: "handle \<Rightarrow> AudioBufferSourceNode option"
  nextHandle :: handle
  liveTracks :: "nat set"
  intervals :: "nat set"

definition initial :: mirror where
  "initial = \<lparr> appState = IDLE, volumeLevel = 0, streamRef = None,
     inputAudioContextRef = None, outputAudioContextRef = None,
     nextStartTimeRef = 0, audioSourcesRef = [],
     sessionPromiseRef = None, activeSessionRef = None, videoIntervalRef = None,
     nodes = (\<lambda>h. None), nextHandle = 0, liveTracks = {}, intervals = {} \<rparr>"

section \<open>The message handler\<close>

text \<open>\<open>message.serverContent?.modelTurn?.parts?.[0]?.inlineData?.data\<close>\<close>

definition base64Audio :: "LiveServerMessage \<Rightarrow> string option" where
  "base64Audio message =
     (case serverContent message of
        None \<Rightarrow> None
      | Some sc \<Rightarrow>
         (case modelTurn sc of
            None \<Rightarrow> None
          | Some mt \<Rightarrow>
             (case parts mt of
                None \<Rightarrow> None
              | Some ps \<Rightarrow>
                 (case ps of
                    [] \<Rightarrow> None
                  | p # _ \<Rightarrow>
                     (case inlineData p of
                        None \<Rightarrow> None
                      | Some blob \<Rightarrow> data blob)))))"

text \<open>\<open>message.serverContent?.interrupted\<close>, tested for truthiness.\<close>

definition interruptedFlag :: "LiveServerMessage \<Rightarrow> bool" where
  "interruptedFlag message =
     (case serverContent message of
        None \<Rightarrow> False
      | Some sc \<Rightarrow> (case interrupted sc of None \<Rightarrow> False | Some b \<Rightarrow> b))"

text \<open>\<open>Set.prototype.add\<close> and \<open>delete\<close> on the insertion-ordered list.\<close>

definition setAdd :: "handle \<Rightarrow> handle list \<Rightarrow> handle list" where
  "setAdd h hs = (if h \<in> set hs then hs else hs @ [h])"

definition setDelete :: "handle \<Rightarrow> handle list \<Rightarrow> handle list" where
  "setDelete h hs = removeAll h hs"

text \<open>
  Lines 115--127: the cursor is raised to the clock, a fresh source node gets the buffer
  and is started at the cursor, the cursor moves on by the buffer's duration and the node
  joins the set. \<open>start(when)\<close> throws only for a negative \<open>when\<close>; the argument is at
  least \<open>ctx.currentTime\<close>, which the browser never reports negative, so the call is
  modelled as total.
\<close>

definition schedule :: "AudioContext \<Rightarrow> AudioBuffer \<Rightarrow> mirror \<Rightarrow> mirror" where
  "schedule ctx audioBuffer s =
     (let startAt = max (nextStartTimeRef s) (currentTime ctx);
          source = nextHandle s;
          node = \<lparr> buffer = audioBuffer, startTime = Some startAt,
                   stopCalled = False, endedFired = False \<rparr>
      in s\<lparr> nextStartTimeRef := startAt + duration audioBuffer,
            nodes := (nodes s)(source \<mapsto> node),
            nextHandle := Suc source,
            audioSourcesRef := setAdd source (audioSourcesRef s) \<rparr>)"

text \<open>\<open>try { src.stop(); } catch(e) {}\<close> on one member of the set.\<close>

definition stopSource :: "platform \<Rightarrow> handle \<Rightarrow> mirror \<Rightarrow> mirror" where
  "stopSource pf h s =
     (case nodes s h of
        None \<Rightarrow> s
      | Some n \<Rightarrow>
         (if stopThrows pf n then s
          else s\<lparr> nodes := (nodes s)(h \<mapsto> n\<lparr> stopCalled := True \<rparr>) \<rparr>))"

fun stopAll :: "platform \<Rightarrow> handle list \<Rightarrow> mirror \<Rightarrow> mirror" where
  "stopAll pf [] s = s"
| "stopAll pf (h # hs) s = stopAll pf hs (stopSource pf h s)"

text \<open>Lines 131--139.\<close>

definition handleInterruption :: "platform \<Rightarrow> LiveServerMessage \<Rightarrow> mirror \<Rightarrow> mirror" where
  "handleInterruption pf message s =
     (if interruptedFlag message then
        (let s1 = stopAll pf (audioSourcesRef s) s;
             s2 = s1\<lparr> audioSourcesRef := [] \<rparr>
         in case outputAudioContextRef s2 of
              None \<Rightarrow> s2
            | Some c \<Rightarrow> s2\<lparr> nextStartTimeRef := currentTime c \<rparr>)
      else s)"

text \<open>
  Lines 100--140. \<open>rnd\<close> is the value \<open>Math.random()\<close> returns in this run. An empty
  string is falsy, so it counts as no audio. A missing context returns from the whole
  handler; a decoder that throws rejects the handler's promise where it stands, after
  the visualisation hook and before any scheduling or interruption handling.
\<close>

definition onmessage :: "platform \<Rightarrow> real \<Rightarrow> LiveServerMessage \<Rightarrow> mirror \<Rightarrow> outcome \<times> mirror" where
  "onmessage pf rnd message s =
     (case base64Audio message of
        None \<Rightarrow> (Resolved, handleInterruption pf message s)
      | Some b64 \<Rightarrow>
         (if b64 = [] then (Resolved, handleInterruption pf message s)
          else
            (case outputAudioContextRef s of
               None \<Rightarrow> (Resolved, s)
             | Some ctx \<Rightarrow>
                (let s1 = s\<lparr> volumeLevel := rnd * 0.5 + 0.5 \<rparr> in
                 case decodeAudio pf b64 of
                   Inl e \<Rightarrow> (Rejected e, s1)
                 | Inr audioBytes \<Rightarrow>
                    (case decodeAudioData pf audioBytes ctx 24000 1 of
                       Inl e \<Rightarrow> (Rejected e, s1)
                     | Inr audioBuffer \<Rightarrow>
                        (Resolved, handleInterruption pf message (schedule ctx audioBuffer s1)))))))"

text \<open>The \<open>ended\<close> listener of a source (lines 121--123).\<close>

definition endedListener :: "handle \<Rightarrow> mirror \<Rightarrow> mirror" where
  "endedListener source s = s\<lparr> audioSourcesRef := setDelete source (audioSourcesRef s) \<rparr>"

section \<open>Session start and teardown\<close>

text \<open>
  What the browser and the SDK hand to \<open>startMirror\<close>: the result of \<open>getUserMedia\<close>,
  whether attaching and playing the video rejects, the two new audio contexts, the
  session the connect promise stands for, and the id \<open>setInterval\<close> returns.
\<close>

record startEnv =
  userMedia :: "error + MediaStream"
  videoPlay :: "error option"
  newInputCtx :: AudioContext
  newOutputCtx :: AudioContext
  newSession :: Session
  newInterval :: nat

text \<open>Lines 42--165, with \<open>startVideoStreaming\<close> (lines 167--197) inlined at its call.\<close>

definition startMirror :: "startEnv \<Rightarrow> mirror \<Rightarrow> mirror" where
  "startMirror env s =
     (let s1 = s\<lparr> appState := CONNECTING \<rparr> in
      case userMedia env of
        Inl e \<Rightarrow> s1\<lparr> appState := ERROR \<rparr>
      | Inr stream \<Rightarrow>
         (let s2 = s1\<lparr> streamRef := Some stream,
                        liveTracks := liveTracks s1 \<union> set stream \<rparr> in
          case videoPlay env of
            Some e \<Rightarrow> s2\<lparr> appState := ERROR \<rparr>
          | None \<Rightarrow>
             s2\<lparr> inputAudioContextRef := Some (newInputCtx env),
                 outputAudioContextRef := Some (newOutputCtx env),
                 nextStartTimeRef := currentTime (newOutputCtx env),
                 sessionPromiseRef := Some (newSession env),
                 videoIntervalRef := Some (newInterval env),
                 intervals := insert (newInterval env) (intervals s2) \<rparr>))"

definition closeContext :: "AudioContext option \<Rightarrow> AudioContext option" where
  "closeContext r = (case r of None \<Rightarrow> None | Some c \<Rightarrow> Some (c\<lparr> isClosed := True \<rparr>))"

text \<open>
  Lines 199--224. The branch on \<open>activeSessionRef.current\<close> holds comments only. The
  stream ref is set to null after its tracks are stopped; the context refs and the
  interval ref keep their values. A number is truthy unless it is zero.
\<close>

definition stopMirror :: "mirror \<Rightarrow> mirror" where
  "stopMirror s =
     (let s1 = (case activeSessionRef s of None \<Rightarrow> s | Some sess \<Rightarrow> s);
          s2 = (case streamRef s1 of
                  None \<Rightarrow> s1
                | Some stream \<Rightarrow> s1\<lparr> liveTracks := liveTracks s1 - set stream,
                                     streamRef := None \<rparr>);
          s3 = s2\<lparr> inputAudioContextRef := closeContext (inputAudioContextRef s2) \<rparr>;
          s4 = s3\<lparr> outputAudioContextRef := closeContext (outputAudioContextRef s3) \<rparr>;
          s5 = (case videoIntervalRef s4 of
                  None \<Rightarrow> s4
                | Some i \<Rightarrow> if i = 0 then s4 else s4\<lparr> intervals := intervals s4 - {i} \<rparr>)
      in s5\<lparr> appState := IDLE, volumeLevel := 0 \<rparr>)"

section \<open>Events of a run\<close>

text \<open>The output clock reads \<open>t\<close>.\<close>

definition advanceClock :: "real \<Rightarrow> mirror \<Rightarrow> mirror" where
  "advanceClock t s =
     (case outputAudioContextRef s of
        None \<Rightarrow> s
      | Some c \<Rightarrow> s\<lparr> outputAudioContextRef := Some (c\<lparr> currentTime := t \<rparr>) \<rparr>)"

text \<open>
  Everything that runs code of the component or moves the output clock. \<open>OnClose\<close>
  carries the \<open>appState\<close> its closure captured.
\<close>

datatype event =
    StartMirror startEnv
  | OnOpen
  | SessionResolved
  | Message real LiveServerMessage
  | NodeEnded handle
  | ClockAdvance real
  | VolumeTimeout
  | StopMirror
  | OnClose AppState
  | OnError
  | TryAgain

fun step :: "platform \<Rightarrow> event \<Rightarrow> mirror \<Rightarrow> mirror" where
  "step pf (StartMirror env) s = startMirror env s"
| "step pf OnOpen s = s\<lparr> appState := ACTIVE \<rparr>"
| "step pf SessionResolved s = s\<lparr> activeSessionRef := sessionPromiseRef s \<rparr>"
| "step pf (Message rnd message) s = snd (onmessage pf rnd message s)"
| "step pf (NodeEnded h) s =
     endedListener h
       (case nodes s h of
          None \<Rightarrow> s
        | Some n \<Rightarrow> s\<lparr> nodes := (nodes s)(h \<mapsto> n\<lparr> endedFired := True \<rparr>) \<rparr>)"
| "step pf (ClockAdvance t) s = advanceClock t s"
| "step pf VolumeTimeout s = s\<lparr> volumeLevel := 0 \<rparr>"
| "step pf StopMirror s = stopMirror s"
| "step pf (OnClose captured) s = (if captured \<noteq> IDLE then stopMirror s else s)"
| "step pf OnError s = stopMirror (s\<lparr> appState := ERROR \<rparr>)"
| "step pf TryAgain s = s\<lparr> appState := IDLE \<rparr>"

text \<open>
  When an event can happen: a message needs the handler registered by \<open>startMirror\<close>
  (the connect call, after which \<open>sessionPromiseRef\<close> is set); \<open>ended\<close> fires once, on a
  started node; the clock of a context that is not closed moves forward only.
\<close>

fun enabled :: "event \<Rightarrow> mirror \<Rightarrow> bool" where
  "enabled (Message rnd message) s = (sessionPromiseRef s \<noteq> None)"
| "enabled (NodeEnded h) s =
     (case nodes s h of
        None \<Rightarrow> False
      | Some n \<Rightarrow> startTime n \<noteq> None \<and> \<not> endedFired n)"
| "enabled (ClockAdvance t) s =
     (case outputAudioContextRef s of
        None \<Rightarrow> False
      | Some c \<Rightarrow> \<not> isClosed c \<and> currentTime c \<le> t)"
| "enabled e s = True"

inductive reachable :: "platform \<Rightarrow> mirror \<Rightarrow> bool" for pf :: platform where
  reachable_initial: "reachable pf initial"
| reachable_step: "reachable pf s \<Longrightarrow> enabled e s \<Longrightarrow> reachable pf (step pf e s)"

section \<open>Notions used to state the properties\<close>

text \<open>The buffer the handler obtains for a message (lines 102--112), if it obtains one.\<close>

definition decoded :: "platform \<Rightarrow> AudioContext \<Rightarrow> LiveServerMessage \<Rightarrow> AudioBuffer option" where
  "decoded pf ctx message =
     (case base64Audio message of
        None \<Rightarrow> None
      | Some b64 \<Rightarrow>
         (if b64 = [] then None
          else
            (case decodeAudio pf b64 of
               Inl e \<Rightarrow> None
             | Inr audioBytes \<Rightarrow>
                (case decodeAudioData pf audioBytes ctx 24000 1 of
                   Inl e \<Rightarrow> None
                 | Inr audioBuffer \<Rightarrow> Some audioBuffer))))"

text \<open>The exception the decoders throw for a message, if they throw.\<close>

definition decodeError :: "platform \<Rightarrow> AudioContext \<Rightarrow> LiveServerMessage \<Rightarrow> error option" where
  "decodeError pf ctx message =
     (case base64Audio message of
        None \<Rightarrow> None
      | Some b64 \<Rightarrow>
         (if b64 = [] then None
          else
            (case decodeAudio pf b64 of
               Inl e \<Rightarrow> Some e
             | Inr audioBytes \<Rightarrow>
                (case decodeAudioData pf audioBytes ctx 24000 1 of
                   Inl e \<Rightarrow> Some e
                 | Inr audioBuffer \<Rightarrow> None))))"

text \<open>\<open>stop()\<close> inside \<open>try\<close>/\<open>catch\<close>, seen from the node: it is marked as stopped unless the
  call throws.\<close>

definition tryStop :: "platform \<Rightarrow> AudioBufferSourceNode \<Rightarrow> AudioBufferSourceNode" where
  "tryStop pf n = (if stopThrows pf n then n else n\<lparr> stopCalled := True \<rparr>)"

text \<open>The time a source node was started at.\<close>

definition startOf :: "mirror \<Rightarrow> handle \<Rightarrow> real option" where
  "startOf s h = (case nodes s h of None \<Rightarrow> None | Some n \<Rightarrow> startTime n)"

text \<open>
  A chunk arriving: the clock reads \<open>now\<close> when the handler schedules it. An arrival is
  the clock reading, the value of \<open>Math.random()\<close> and the message.
\<close>

type_synonym arrival = "real \<times> real \<times> LiveServerMessage"

definition arrive :: "platform \<Rightarrow> arrival \<Rightarrow> mirror \<Rightarrow> mirror" where
  "arrive pf a s =
     (case a of (now, rnd, message) \<Rightarrow>
        step pf (Message rnd message) (step pf (ClockAdvance now) s))"

fun arriveAll :: "platform \<Rightarrow> arrival list \<Rightarrow> mirror \<Rightarrow> mirror" where
  "arriveAll pf [] s = s"
| "arriveAll pf (a # as) s = arriveAll pf as (arrive pf a s)"

text \<open>
  Every arrival of the sequence is a chunk that decodes, carries no interruption, and
  comes no later than the cursor stands when it comes.
\<close>

fun onTime :: "platform \<Rightarrow> arrival list \<Rightarrow> mirror \<Rightarrow> bool" where
  "onTime pf [] s = True"
| "onTime pf (a # as) s =
     (case a of (now, rnd, message) \<Rightarrow>
        (case outputAudioContextRef (advanceClock now s) of
           None \<Rightarrow> False
         | Some ctx \<Rightarrow> decoded pf ctx message \<noteq> None)
        \<and> \<not> interruptedFlag message
        \<and> now \<le> nextStartTimeRef s
        \<and> onTime pf as (arrive pf a s))"

text \<open>A source node that was started, and neither stopped nor reported as ended.\<close>

definition playing :: "AudioBufferSourceNode option \<Rightarrow> bool" where
  "playing x =
     (case x of
        None \<Rightarrow> False
      | Some n \<Rightarrow> startTime n \<noteq> None \<and> \<not> stopCalled n \<and> \<not> endedFired n)"

definition sourceInv :: "mirror \<Rightarrow> bool" where
  "sourceInv s =
     (distinct (audioSourcesRef s)
      \<and> list_all (\<lambda>h. h < nextHandle s \<and> playing (nodes s h)) (audioSourcesRef s))"

section \<open>Example inputs\<close>

definition audioMessage :: "string \<Rightarrow> bool option \<Rightarrow> LiveServerMessage" where
  "audioMessage b64 flag =
     \<lparr> serverContent = Some \<lparr> modelTurn = Some \<lparr> parts = Some [\<lparr> inlineData = Some \<lparr> data = Some b64 \<rparr> \<rparr>] \<rparr>,
                               interrupted = flag \<rparr> \<rparr>"

definition interruptMessage :: LiveServerMessage where
  "interruptMessage = \<lparr> serverContent = Some \<lparr> modelTurn = None, interrupted = Some True \<rparr> \<rparr>"

definition emptyMessage :: LiveServerMessage where
  "emptyMessage = \<lparr> serverContent = None \<rparr>"

text \<open>
  A platform whose decoders accept the payloads \<open>A\<close> (24000 frames, one second at
  24 kHz) and \<open>B\<close> (12000 frames, half a second) and throw on every other payload,
  and whose \<open>stop\<close> throws on a node that has already ended.
\<close>

definition examplePlatform :: platform where
  "examplePlatform =
     \<lparr> decodeAudio = (\<lambda>b64. if b64 = ''A'' then Inr [1] else if b64 = ''B'' then Inr [2]
                             else Inl DecodeFailure),
       decodeAudioData = (\<lambda>bytes ctx rate channels.
                            if bytes = [1] then Inr \<lparr> frames = 24000, sampleRate = rate \<rparr>
                            else if bytes = [2] then Inr \<lparr> frames = 12000, sampleRate = rate \<rparr>
                            else Inl DecodeFailure),
       stopThrows = (\<lambda>n. endedFired n) \<rparr>"

definition exampleEnv :: startEnv where
  "exampleEnv =
     \<lparr> userMedia = Inr [0, 1], videoPlay = None,
       newInputCtx = \<lparr> currentTime = 0, isClosed = False \<rparr>,
       newOutputCtx = \<lparr> currentTime = 0, isClosed = False \<rparr>,
       newSession = \<lparr> sessionId = 7, closeCalled = False \<rparr>,
       newInterval = 3 \<rparr>"

text \<open>The state right after a successful \<open>startMirror\<close>.\<close>

definition started :: mirror where
  "started = startMirror exampleEnv initial"

text \<open>The buffers of the payloads \<open>A\<close> and \<open>B\<close>.\<close>

definition bufferA :: AudioBuffer where
  "bufferA = \<lparr> frames = 24000, sampleRate = 24000 \<rparr>"

definition bufferB :: AudioBuffer where
  "bufferB = \<lparr> frames = 12000, sampleRate = 24000 \<rparr>"

text \<open>The clock has run to 2 s while the cursor stayed at 0.\<close>

definition lateState :: mirror where
  "lateState = advanceClock 2 started"

text \<open>Chunk \<open>A\<close> was enqueued at time 0; then the clock reads 0.3 s.\<close>

definition playingA :: mirror where
  "playingA = arrive examplePlatform (0, 0, audioMessage ''A'' None) started"

definition atInterrupt :: mirror where
  "atInterrupt = advanceClock (3/10) playingA"

text \<open>A set that holds a source whose \<open>ended\<close> event has fired (so that \<open>stop\<close> throws on
  it) and one that is still playing.\<close>

definition staleState :: mirror where
  "staleState = started\<lparr> audioSourcesRef := [0, 1],
     nodes := (\<lambda>h. if h = 0 then Some \<lparr> buffer = bufferA, startTime = Some 0,
                                          stopCalled = False, endedFired = True \<rparr>
                     else if h = 1 then Some \<lparr> buffer = bufferB, startTime = Some 1,
                                               stopCalled = False, endedFired = False \<rparr>
                     else None),
     nextHandle := 2, nextStartTimeRef := 3/2 \<rparr>"

text \<open>The spec's example: chunk \<open>A\<close> (1 s) arrives at time 0, chunk \<open>B\<close> (0.5 s) at time 0.2.\<close>

definition exampleArrivals :: "arrival list" where
  "exampleArrivals = [(0, 0, audioMessage ''A'' None), (1/5, 0, audioMessage ''B'' None)]"

text \<open>Chunk \<open>A\<close> is enqueued and the clock reads 0.2 s.\<close>

definition beforeB :: mirror where
  "beforeB = advanceClock (1/5) playingA"

text \<open>The events that may move the cursor back: a message with the interrupted flag, and a session start.\<close>

definition resets :: "event \<Rightarrow> bool" where
  "resets e =
     (case e of
        Message rnd message \<Rightarrow> interruptedFlag message
      | StartMirror env \<Rightarrow> True
      | _ \<Rightarrow> False)"

text \<open>A sequence of events, one after the other.\<close>

definition run :: "platform \<Rightarrow> event list \<Rightarrow> mirror \<Rightarrow> mirror" where
  "run pf es s = foldl (\<lambda>x e. step pf e x) s es"

text \<open>A run with a late chunk, its end and a teardown, and no interruption or session start.\<close>

definition quietRun :: "event list" where
  "quietRun = [ClockAdvance 2, Message 0 (audioMessage ''A'' None), NodeEnded 0, StopMirror]"

text \<open>The state after \<open>startMirror\<close> and then \<open>stopMirror\<close>.\<close>

definition tornDown :: mirror where
  "tornDown = stopMirror started"

text \<open>A message whose payload the decoders reject, with the interrupted flag set.\<close>

definition badMessage :: LiveServerMessage where
  "badMessage = audioMessage ''?'' (Some True)"

section \<open>Properties\<close>

subsection \<open>The branches of the handler\<close>

lemma onmessage_decoded:
  assumes "outputAudioContextRef s = Some ctx" and "decoded pf ctx message = Some audioBuffer"
  shows "onmessage pf rnd message s =
    (Resolved, handleInterruption pf message
       (schedule ctx audioBuffer (s\<lparr> volumeLevel := rnd * 0.5 + 0.5 \<rparr>)))"
  using assms
  by (auto simp: onmessage_def decoded_def Let_def split: option.splits sum.splits if_splits)

lemma onmessage_decodeError:
  assumes "outputAudioContextRef s = Some ctx" and "decodeError pf ctx message = Some e"
  shows "onmessage pf rnd message s = (Rejected e, s\<lparr> volumeLevel := rnd * 0.5 + 0.5 \<rparr>)"
  using assms
  by (auto simp: onmessage_def decodeError_def Let_def split: option.splits sum.splits if_splits)

lemma onmessage_no_context:
  assumes "base64Audio message = Some b" "b \<noteq> []" "outputAudioContextRef s = None"
  shows "onmessage pf rnd message s = (Resolved, s)"
  using assms by (simp add: onmessage_def)

lemma message_cases:
  "base64Audio message = None \<or> base64Audio message = Some []
   \<or> (\<exists>e. decodeError pf ctx message = Some e)
   \<or> (\<exists>b. decoded pf ctx message = Some b)"
  by (auto simp: decoded_def decodeError_def split: option.splits sum.splits)

lemma onmessage_no_audio:
  "base64Audio message = None \<or> base64Audio message = Some [] \<Longrightarrow>
   onmessage pf rnd message s = (Resolved, handleInterruption pf message s)"
  by (auto simp: onmessage_def)

subsection \<open>Stopping the sources\<close>

lemma stopSource_eq: "stopSource pf h s = s\<lparr> nodes := nodes (stopSource pf h s) \<rparr>"
  by (simp add: stopSource_def split: option.split)

lemma stopAll_eq: "stopAll pf hs s = s\<lparr> nodes := nodes (stopAll pf hs s) \<rparr>"
proof (induction hs arbitrary: s)
  case Nil
  show ?case by simp
next
  case (Cons h hs)
  have "stopAll pf (h # hs) s = stopAll pf hs (stopSource pf h s)" by simp
  also have "\<dots> = (stopSource pf h s)\<lparr> nodes := nodes (stopAll pf hs (stopSource pf h s)) \<rparr>"
    by (rule Cons.IH)
  also have "\<dots> = s\<lparr> nodes := nodes (stopAll pf hs (stopSource pf h s)) \<rparr>"
    by (subst stopSource_eq) simp
  finally show ?case by simp
qed

lemma tryStop_idem: "tryStop pf (tryStop pf n) = tryStop pf n"
  by (simp add: tryStop_def)

lemma stopSource_nodes:
  "nodes (stopSource pf a s) h = (if h = a then map_option (tryStop pf) (nodes s h) else nodes s h)"
  by (simp add: stopSource_def tryStop_def split: option.split)

lemma stopAll_nodes:
  "nodes (stopAll pf hs s) h =
     (if h \<in> set hs then map_option (tryStop pf) (nodes s h) else nodes s h)"
proof (induction hs arbitrary: s)
  case Nil
  show ?case by simp
next
  case (Cons a hs)
  show ?case
    by (cases "nodes s h")
       (auto simp: Cons.IH stopSource_nodes tryStop_idem option.map_comp comp_def)
qed

lemma handleInterruption_interrupted:
  assumes "interruptedFlag message" and "outputAudioContextRef s = Some c"
  shows "handleInterruption pf message s =
     s\<lparr> nodes := nodes (stopAll pf (audioSourcesRef s) s),
        audioSourcesRef := [], nextStartTimeRef := currentTime c \<rparr>"
proof -
  define S where "S = stopAll pf (audioSourcesRef s) s"
  have eq: "S = s\<lparr> nodes := nodes S \<rparr>"
    unfolding S_def by (rule stopAll_eq)
  have c: "outputAudioContextRef S = Some c"
    by (subst eq) (simp add: assms)
  have "S\<lparr> audioSourcesRef := [], nextStartTimeRef := currentTime c \<rparr>
      = (s\<lparr> nodes := nodes S \<rparr>)\<lparr> audioSourcesRef := [], nextStartTimeRef := currentTime c \<rparr>"
    by (rule arg_cong [where f = "\<lambda>x. x\<lparr> audioSourcesRef := [], nextStartTimeRef := currentTime c \<rparr>", OF eq])
  then show ?thesis
    using assms(1) c by (simp add: handleInterruption_def Let_def S_def [symmetric])
qed

lemma handleInterruption_not: "\<not> interruptedFlag message \<Longrightarrow> handleInterruption pf message s = s"
  by (simp add: handleInterruption_def)

lemma nodes_handleInterruption:
  "nodes (handleInterruption pf message s) =
     (if interruptedFlag message then nodes (stopAll pf (audioSourcesRef s) s) else nodes s)"
  by (simp add: handleInterruption_def Let_def split: option.split)

lemma startOf_handleInterruption:
  "startOf (handleInterruption pf message s) h = startOf s h"
  by (cases "nodes s h")
     (simp_all add: startOf_def nodes_handleInterruption stopAll_nodes tryStop_def)

lemma startOf_schedule:
  "startOf (schedule ctx b s) (nextHandle s) = Some (max (nextStartTimeRef s) (currentTime ctx))"
  by (simp add: startOf_def schedule_def Let_def)

subsection \<open>The example states, evaluated\<close>

lemmas example_defs =
  started_def startMirror_def exampleEnv_def initial_def examplePlatform_def
  audioMessage_def interruptMessage_def emptyMessage_def advanceClock_def
  base64Audio_def interruptedFlag_def decoded_def decodeError_def bufferA_def bufferB_def
  arrive_def

lemma started_eval:
  "started = \<lparr> appState = CONNECTING, volumeLevel = 0, streamRef = Some [0, 1],
     inputAudioContextRef = Some \<lparr> currentTime = 0, isClosed = False \<rparr>,
     outputAudioContextRef = Some \<lparr> currentTime = 0, isClosed = False \<rparr>,
     nextStartTimeRef = 0, audioSourcesRef = [],
     sessionPromiseRef = Some \<lparr> sessionId = 7, closeCalled = False \<rparr>,
     activeSessionRef = None, videoIntervalRef = Some 3,
     nodes = (\<lambda>h. None), nextHandle = 0, liveTracks = {0, 1}, intervals = {3} \<rparr>"
  by (simp add: started_def startMirror_def exampleEnv_def initial_def Let_def insert_commute)

lemma playingA_eval:
  "playingA = started\<lparr> volumeLevel := 1/2, nextStartTimeRef := 1,
     nodes := (\<lambda>h. None)(0 \<mapsto> \<lparr> buffer = bufferA, startTime = Some 0,
                                  stopCalled = False, endedFired = False \<rparr>),
     nextHandle := 1, audioSourcesRef := [0] \<rparr>"
  by (simp add: playingA_def arrive_def advanceClock_def started_eval onmessage_def
      base64Audio_def audioMessage_def examplePlatform_def handleInterruption_def
      interruptedFlag_def schedule_def Let_def setAdd_def duration_def bufferA_def)

subsection \<open>Chunks that arrive on time\<close>

lemma advanceClock_eq:
  "advanceClock t s = s\<lparr> outputAudioContextRef := outputAudioContextRef (advanceClock t s) \<rparr>"
  by (simp add: advanceClock_def split: option.split)

lemma advanceClock_now:
  "outputAudioContextRef (advanceClock t s) = Some ctx \<Longrightarrow> currentTime ctx = t"
  by (auto simp: advanceClock_def split: option.splits)

lemma schedule_nodes:
  "nodes (schedule ctx b s) =
     (nodes s)(nextHandle s \<mapsto> \<lparr> buffer = b,
        startTime = Some (max (nextStartTimeRef s) (currentTime ctx)),
        stopCalled = False, endedFired = False \<rparr>)"
  by (simp add: schedule_def Let_def)

lemma schedule_fields:
  "nextHandle (schedule ctx b s) = Suc (nextHandle s)"
  "nextStartTimeRef (schedule ctx b s) = max (nextStartTimeRef s) (currentTime ctx) + duration b"
  "audioSourcesRef (schedule ctx b s) = setAdd (nextHandle s) (audioSourcesRef s)"
  "outputAudioContextRef (schedule ctx b s) = outputAudioContextRef s"
  by (simp_all add: schedule_def Let_def)

lemma arrive_scheduled:
  assumes "outputAudioContextRef (advanceClock now s) = Some ctx"
    and "decoded pf ctx message = Some b"
    and "\<not> interruptedFlag message"
  shows "arrive pf (now, rnd, message) s =
     schedule ctx b ((advanceClock now s)\<lparr> volumeLevel := rnd * 0.5 + 0.5 \<rparr>)"
  by (simp add: arrive_def onmessage_decoded [OF assms(1,2)] handleInterruption_not [OF assms(3)])

lemma arrive_onTime:
  assumes "onTime pf ((now, rnd, message) # as) s"
  shows "\<exists>b. nodes (arrive pf (now, rnd, message) s) =
          (nodes s)(nextHandle s \<mapsto> \<lparr> buffer = b, startTime = Some (nextStartTimeRef s),
                                      stopCalled = False, endedFired = False \<rparr>)
       \<and> nextStartTimeRef (arrive pf (now, rnd, message) s) = nextStartTimeRef s + duration b"
    and "nextHandle (arrive pf (now, rnd, message) s) = Suc (nextHandle s)"
    and "onTime pf as (arrive pf (now, rnd, message) s)"
proof -
  from assms obtain ctx b where c: "outputAudioContextRef (advanceClock now s) = Some ctx"
    and d: "decoded pf ctx message = Some b" and i: "\<not> interruptedFlag message"
    and t: "now \<le> nextStartTimeRef s"
    by (auto split: option.splits)
  note a = arrive_scheduled [OF c d i, of rnd]
  have n: "currentTime ctx = now"
    using c by (rule advanceClock_now)
  have f: "nextHandle (advanceClock now s) = nextHandle s"
    "nodes (advanceClock now s) = nodes s"
    "nextStartTimeRef (advanceClock now s) = nextStartTimeRef s"
    by (subst advanceClock_eq, simp)+
  have m: "max (nextStartTimeRef s) now = nextStartTimeRef s"
    using t by simp
  show "\<exists>b. nodes (arrive pf (now, rnd, message) s) =
          (nodes s)(nextHandle s \<mapsto> \<lparr> buffer = b, startTime = Some (nextStartTimeRef s),
                                      stopCalled = False, endedFired = False \<rparr>)
       \<and> nextStartTimeRef (arrive pf (now, rnd, message) s) = nextStartTimeRef s + duration b"
    by (rule exI [of _ b]) (simp add: a schedule_nodes schedule_fields f n m)
  show "nextHandle (arrive pf (now, rnd, message) s) = Suc (nextHandle s)"
    by (simp add: a schedule_fields f)
  show "onTime pf as (arrive pf (now, rnd, message) s)"
    using assms by simp
qed

lemma arriveAll_frame:
  "onTime pf as s \<Longrightarrow> h < nextHandle s \<Longrightarrow> nodes (arriveAll pf as s) h = nodes s h"
proof (induction as arbitrary: s)
  case Nil
  show ?case by simp
next
  case (Cons a as)
  obtain now rnd message where a: "a = (now, rnd, message)"
    by (cases a)
  note st = arrive_onTime [OF Cons.prems(1) [unfolded a]]
  from st(1) obtain b where nd: "nodes (arrive pf a s) =
          (nodes s)(nextHandle s \<mapsto> \<lparr> buffer = b, startTime = Some (nextStartTimeRef s),
                                      stopCalled = False, endedFired = False \<rparr>)"
    unfolding a by blast
  have "nodes (arriveAll pf as (arrive pf a s)) h = nodes (arrive pf a s) h"
    using st(2,3) Cons.prems(2) by (intro Cons.IH) (simp_all add: a)
  also have "\<dots> = nodes s h"
    using Cons.prems(2) by (simp add: nd)
  finally show ?case by simp
qed

lemma arriveAll_head:
  assumes "onTime pf (a # as) s"
  shows "\<exists>n. nodes (arriveAll pf (a # as) s) (nextHandle s) = Some n
     \<and> startTime n = Some (nextStartTimeRef s)
     \<and> nextStartTimeRef (arrive pf a s) = nextStartTimeRef s + duration (buffer n)"
proof -
  obtain now rnd message where a: "a = (now, rnd, message)"
    by (cases a)
  note st = arrive_onTime [OF assms [unfolded a]]
  from st(1) obtain b where nd: "nodes (arrive pf a s) =
          (nodes s)(nextHandle s \<mapsto> \<lparr> buffer = b, startTime = Some (nextStartTimeRef s),
                                      stopCalled = False, endedFired = False \<rparr>)"
    and cu: "nextStartTimeRef (arrive pf a s) = nextStartTimeRef s + duration b"
    unfolding a by blast
  have "nodes (arriveAll pf as (arrive pf a s)) (nextHandle s) = nodes (arrive pf a s) (nextHandle s)"
    using st(2,3) by (intro arriveAll_frame) (simp_all add: a)
  then show ?thesis
    by (simp add: nd cu)
qed

lemma arriveAll_gapless:
  "onTime pf as s \<Longrightarrow> Suc i < length as \<Longrightarrow>
   \<exists>n t. nodes (arriveAll pf as s) (nextHandle s + i) = Some n \<and> startTime n = Some t
     \<and> startOf (arriveAll pf as s) (nextHandle s + Suc i) = Some (t + duration (buffer n))"
proof (induction as arbitrary: s i)
  case Nil
  then show ?case by simp
next
  case (Cons a as)
  obtain now rnd message where a: "a = (now, rnd, message)"
    by (cases a)
  note st = arrive_onTime [OF Cons.prems(1) [unfolded a], folded a]
  show ?case
  proof (cases i)
    case 0
    with Cons.prems(2) obtain b bs where as: "as = b # bs"
      by (cases as) auto
    from arriveAll_head [OF Cons.prems(1)] obtain n
      where n: "nodes (arriveAll pf (a # as) s) (nextHandle s) = Some n"
        "startTime n = Some (nextStartTimeRef s)"
        "nextStartTimeRef (arrive pf a s) = nextStartTimeRef s + duration (buffer n)"
      by blast
    from arriveAll_head [OF st(3) [unfolded as]] obtain n'
      where n': "nodes (arriveAll pf (b # bs) (arrive pf a s)) (nextHandle (arrive pf a s)) = Some n'"
        "startTime n' = Some (nextStartTimeRef (arrive pf a s))"
      by blast
    have "startOf (arriveAll pf (a # as) s) (nextHandle s + Suc 0)
        = Some (nextStartTimeRef s + duration (buffer n))"
      using n' by (simp add: startOf_def as st(2) n(3))
    with n show ?thesis
      by (simp add: 0)
  next
    case (Suc k)
    with Cons.prems(2) have "Suc k < length as" by simp
    from Cons.IH [OF st(3) this] show ?thesis
      by (simp add: Suc st(2))
  qed
qed

lemma duration_nonneg: "0 \<le> duration b"
  by (simp add: duration_def)

lemma arriveAll_started:
  "onTime pf as s \<Longrightarrow> i < length as \<Longrightarrow>
   \<exists>t. startOf (arriveAll pf as s) (nextHandle s + i) = Some t"
proof (induction as arbitrary: s i)
  case Nil
  then show ?case by simp
next
  case (Cons a as)
  obtain now rnd message where a: "a = (now, rnd, message)"
    by (cases a)
  note st = arrive_onTime [OF Cons.prems(1) [unfolded a], folded a]
  show ?case
  proof (cases i)
    case 0
    from arriveAll_head [OF Cons.prems(1)] show ?thesis
      by (auto simp: 0 startOf_def)
  next
    case (Suc k)
    with Cons.prems(2) have "k < length as" by simp
    from Cons.IH [OF st(3) this] show ?thesis
      by (simp add: Suc st(2))
  qed
qed

lemma arriveAll_order:
  assumes "onTime pf as s" and "j < length as" and "i \<le> j"
  shows "\<exists>t u. startOf (arriveAll pf as s) (nextHandle s + i) = Some t
     \<and> startOf (arriveAll pf as s) (nextHandle s + j) = Some u \<and> t \<le> u"
  using assms(2,3)
proof (induction j)
  case 0
  with arriveAll_started [OF assms(1), of 0] show ?case by auto
next
  case (Suc j)
  show ?case
  proof (cases "i = Suc j")
    case True
    with arriveAll_started [OF assms(1) Suc.prems(1)] show ?thesis by auto
  next
    case False
    with Suc.prems have "i \<le> j" "j < length as" by simp_all
    from Suc.IH [OF this(2,1)] obtain t u
      where t: "startOf (arriveAll pf as s) (nextHandle s + i) = Some t"
        and u: "startOf (arriveAll pf as s) (nextHandle s + j) = Some u" and le: "t \<le> u"
      by blast
    from arriveAll_gapless [OF assms(1) Suc.prems(1)] obtain n v
      where n: "nodes (arriveAll pf as s) (nextHandle s + j) = Some n" "startTime n = Some v"
        "startOf (arriveAll pf as s) (nextHandle s + Suc j) = Some (v + duration (buffer n))"
      by blast
    from n(1,2) u have "v = u"
      by (simp add: startOf_def)
    with n(3)
    have "startOf (arriveAll pf as s) (nextHandle s + Suc j) = Some (u + duration (buffer n))"
      by simp
    moreover have "t \<le> u + duration (buffer n)"
      using le duration_nonneg [of "buffer n"] by linarith
    ultimately show ?thesis
      using t by blast
  qed
qed

lemma beforeB_eval:
  "beforeB = playingA\<lparr> outputAudioContextRef := Some \<lparr> currentTime = 1/5, isClosed = False \<rparr> \<rparr>"
  by (simp add: beforeB_def advanceClock_def playingA_eval started_eval)

lemma exampleArrivals_eval:
  "arriveAll examplePlatform exampleArrivals started =
     beforeB\<lparr> nextStartTimeRef := 3/2,
       nodes := (\<lambda>h. None)(0 \<mapsto> \<lparr> buffer = bufferA, startTime = Some 0,
                                    stopCalled = False, endedFired = False \<rparr>,
                            1 \<mapsto> \<lparr> buffer = bufferB, startTime = Some 1,
                                    stopCalled = False, endedFired = False \<rparr>),
       nextHandle := 2, audioSourcesRef := [0, 1] \<rparr>"
  by (simp add: exampleArrivals_def playingA_def [symmetric] arrive_def [of _ "(1/5, _)"]
      beforeB_def [symmetric])
     (simp add: beforeB_eval playingA_eval started_eval onmessage_def
      base64Audio_def audioMessage_def examplePlatform_def handleInterruption_def
      interruptedFlag_def schedule_def Let_def setAdd_def duration_def bufferA_def bufferB_def)

lemma exampleArrivals_onTime: "onTime examplePlatform exampleArrivals started"
  by (simp add: exampleArrivals_def playingA_def [symmetric])
     (simp add: playingA_eval started_eval advanceClock_def example_defs)

subsection \<open>The cursor and the source set along a run\<close>

lemma stopMirror_scheduler:
  "nextStartTimeRef (stopMirror s) = nextStartTimeRef s"
  "audioSourcesRef (stopMirror s) = audioSourcesRef s"
  "nodes (stopMirror s) = nodes s"
  "nextHandle (stopMirror s) = nextHandle s"
  by (simp_all add: stopMirror_def Let_def split: option.split)

lemma startMirror_scheduler:
  "audioSourcesRef (startMirror env s) = audioSourcesRef s"
  "nodes (startMirror env s) = nodes s"
  "nextHandle (startMirror env s) = nextHandle s"
  by (simp_all add: startMirror_def Let_def split: sum.split option.split)

lemma onmessage_cursor_mono:
  assumes "\<not> interruptedFlag message"
  shows "nextStartTimeRef s \<le> nextStartTimeRef (snd (onmessage pf rnd message s))"
proof (cases "outputAudioContextRef s")
  case None
  then show ?thesis
    using assms by (cases "base64Audio message")
      (simp_all add: onmessage_def handleInterruption_not)
next
  case (Some c)
  consider (none) "base64Audio message = None \<or> base64Audio message = Some []"
    | (err) e where "decodeError pf c message = Some e"
    | (ok) b where "decoded pf c message = Some b"
    using message_cases [of message pf c] by blast
  then show ?thesis
  proof cases
    case none
    then show ?thesis
      using assms by (simp add: onmessage_no_audio handleInterruption_not)
  next
    case err
    with Some show ?thesis
      by (simp add: onmessage_decodeError)
  next
    case ok
    have "nextStartTimeRef s \<le> max (nextStartTimeRef s) (currentTime c) + duration b"
      using duration_nonneg [of b] by linarith
    then show ?thesis
      using assms by (simp add: onmessage_decoded [OF Some ok] handleInterruption_not schedule_fields)
  qed
qed

lemma stopAll_refs:
  "outputAudioContextRef (stopAll pf hs s) = outputAudioContextRef s"
  "sessionPromiseRef (stopAll pf hs s) = sessionPromiseRef s"
  "nextHandle (stopAll pf hs s) = nextHandle s"
  by (subst stopAll_eq, simp)+

lemma handleInterruption_refs:
  "outputAudioContextRef (handleInterruption pf message s) = outputAudioContextRef s"
  "sessionPromiseRef (handleInterruption pf message s) = sessionPromiseRef s"
  "nextHandle (handleInterruption pf message s) = nextHandle s"
  by (simp_all add: handleInterruption_def Let_def stopAll_refs split: option.split)

lemma onmessage_refs:
  "outputAudioContextRef (snd (onmessage pf rnd message s)) = outputAudioContextRef s"
  "sessionPromiseRef (snd (onmessage pf rnd message s)) = sessionPromiseRef s"
  by (simp_all add: onmessage_def Let_def handleInterruption_refs schedule_def
      split: option.split sum.split)

lemma stopMirror_refs:
  "sessionPromiseRef (stopMirror s) = sessionPromiseRef s"
  "activeSessionRef (stopMirror s) = activeSessionRef s"
  "outputAudioContextRef (stopMirror s) = closeContext (outputAudioContextRef s)"
  "inputAudioContextRef (stopMirror s) = closeContext (inputAudioContextRef s)"
  by (simp_all add: stopMirror_def Let_def split: option.split)

lemma closeContext_None: "closeContext r = None \<longleftrightarrow> r = None"
  by (simp add: closeContext_def split: option.split)

lemma handler_has_context:
  "reachable pf s \<Longrightarrow> sessionPromiseRef s \<noteq> None \<Longrightarrow> outputAudioContextRef s \<noteq> None"
proof (induction rule: reachable.induct)
  case reachable_initial
  then show ?case by (simp add: initial_def)
next
  case (reachable_step s e)
  show ?case
  proof (cases e)
    case (StartMirror env)
    with reachable_step show ?thesis
      by (auto simp: startMirror_def Let_def split: sum.splits option.splits)
  next
    case (Message rnd message)
    with reachable_step show ?thesis
      by (simp add: onmessage_refs)
  next
    case (NodeEnded h)
    with reachable_step show ?thesis
      by (simp add: endedListener_def split: option.splits)
  next
    case (ClockAdvance t)
    with reachable_step show ?thesis
      by (auto simp: advanceClock_def split: option.splits)
  next
    case StopMirror
    with reachable_step show ?thesis
      by (simp add: stopMirror_refs closeContext_None)
  next
    case (OnClose a)
    with reachable_step show ?thesis
      by (cases "a = IDLE") (simp_all add: stopMirror_refs closeContext_None)
  next
    case OnError
    with reachable_step show ?thesis
      by (simp add: stopMirror_refs closeContext_None)
  qed (use reachable_step in simp_all)
qed

lemma step_cursor_mono:
  assumes "\<not> resets e"
  shows "nextStartTimeRef s \<le> nextStartTimeRef (step pf e s)"
proof (cases e)
  case (Message r m)
  with assms onmessage_cursor_mono [of m s pf r] show ?thesis
    by (simp add: resets_def)
next
  case (NodeEnded h)
  then show ?thesis
    by (simp add: endedListener_def split: option.splits)
next
  case (ClockAdvance t)
  then show ?thesis
    by (simp add: advanceClock_def split: option.splits)
qed (use assms in \<open>simp_all add: stopMirror_scheduler resets_def\<close>)

lemma run_cursor_mono:
  "list_all (\<lambda>e. \<not> resets e) es \<Longrightarrow> nextStartTimeRef s \<le> nextStartTimeRef (run pf es s)"
proof (induction es arbitrary: s)
  case Nil
  show ?case by (simp add: run_def)
next
  case (Cons e es)
  have "nextStartTimeRef s \<le> nextStartTimeRef (step pf e s)"
    using Cons.prems by (simp add: step_cursor_mono)
  also have "\<dots> \<le> nextStartTimeRef (run pf es (step pf e s))"
    using Cons.prems by (intro Cons.IH) simp
  finally show ?case by (simp add: run_def)
qed

lemma sourceInv_cong:
  "audioSourcesRef s' = audioSourcesRef s \<Longrightarrow> nodes s' = nodes s \<Longrightarrow>
   nextHandle s' = nextHandle s \<Longrightarrow> sourceInv s' = sourceInv s"
  by (simp add: sourceInv_def)

lemma sourceInv_cleared: "audioSourcesRef s = [] \<Longrightarrow> sourceInv s"
  by (simp add: sourceInv_def)

lemma sourceInv_fresh: "sourceInv s \<Longrightarrow> nextHandle s \<notin> set (audioSourcesRef s)"
  by (auto simp: sourceInv_def list_all_iff)

lemma sourceInv_schedule:
  assumes "sourceInv s"
  shows "sourceInv (schedule ctx b s)"
proof -
  have f: "nextHandle s \<notin> set (audioSourcesRef s)"
    using assms by (rule sourceInv_fresh)
  show ?thesis
    using assms f
    by (auto simp: sourceInv_def schedule_def Let_def setAdd_def list_all_iff playing_def)
qed

lemma sourceInv_handleInterruption:
  assumes "sourceInv s"
  shows "sourceInv (handleInterruption pf message s)"
proof (cases "interruptedFlag message")
  case True
  then have "audioSourcesRef (handleInterruption pf message s) = []"
    by (simp add: handleInterruption_def Let_def split: option.split)
  then show ?thesis
    by (rule sourceInv_cleared)
next
  case False
  with assms show ?thesis
    by (simp add: handleInterruption_not)
qed

lemma sourceInv_onmessage:
  assumes "sourceInv s"
  shows "sourceInv (snd (onmessage pf rnd message s))"
proof -
  have v: "sourceInv (s\<lparr> volumeLevel := x \<rparr>)" for x
    using assms by (simp add: sourceInv_def)
  show ?thesis
    by (simp add: onmessage_def Let_def assms v sourceInv_handleInterruption
        sourceInv_schedule split: option.split sum.split)
qed

lemma sourceInv_ended:
  assumes "sourceInv s"
  shows "sourceInv (step pf (NodeEnded h) s)"
  using assms
  by (auto simp: sourceInv_def endedListener_def setDelete_def list_all_iff distinct_removeAll
      split: option.split)

lemma sourceInv_step:
  assumes "sourceInv s"
  shows "sourceInv (step pf e s)"
proof (cases e)
  case (Message r m)
  with assms show ?thesis
    by (simp add: sourceInv_onmessage)
next
  case (NodeEnded h)
  with assms show ?thesis
    by (simp only: sourceInv_ended)
next
  case (StartMirror env)
  with assms show ?thesis
    by (simp add: sourceInv_cong [of "startMirror env s" s] startMirror_scheduler)
next
  case (ClockAdvance t)
  with assms show ?thesis
    by (simp add: sourceInv_def advanceClock_def split: option.split)
next
  case (OnClose a)
  with assms show ?thesis
    by (simp add: sourceInv_cong [of "stopMirror s" s] stopMirror_scheduler)
qed (use assms in \<open>simp_all add: sourceInv_def stopMirror_scheduler\<close>)

lemma reachable_sourceInv: "reachable pf s \<Longrightarrow> sourceInv s"
proof (induction rule: reachable.induct)
  case reachable_initial
  show ?case by (simp add: sourceInv_def initial_def)
next
  case (reachable_step s e)
  then show ?case by (simp add: sourceInv_step)
qed

lemma onmessage_keeps:
  assumes "\<not> interruptedFlag message" and "h \<in> set (audioSourcesRef s)"
  shows "h \<in> set (audioSourcesRef (snd (onmessage pf rnd message s)))"
  using assms
  by (simp add: onmessage_def Let_def handleInterruption_not schedule_def setAdd_def
      split: option.split sum.split)

lemma removed_only_by:
  assumes "h \<in> set (audioSourcesRef s)" and "h \<notin> set (audioSourcesRef (step pf e s))"
  shows "e = NodeEnded h \<or> (\<exists>r m. e = Message r m \<and> interruptedFlag m)"
proof (cases e)
  case (Message r m)
  with assms onmessage_keeps [of m h s pf r] show ?thesis
    by auto
next
  case (NodeEnded k)
  with assms show ?thesis
    by (auto simp: endedListener_def setDelete_def split: option.splits)
next
  case (StartMirror env)
  with assms show ?thesis
    by (simp add: startMirror_scheduler)
next
  case (ClockAdvance t)
  with assms show ?thesis
    by (simp add: advanceClock_def split: option.splits)
next
  case (OnClose a)
  with assms show ?thesis
    by (simp add: stopMirror_scheduler split: if_splits)
qed (use assms in \<open>simp_all add: stopMirror_scheduler\<close>)

lemma ended_removes: "h \<notin> set (audioSourcesRef (step pf (NodeEnded h) s))"
  by (simp add: endedListener_def setDelete_def split: option.split)

lemma interruption_clears:
  assumes "reachable pf s" and "enabled (Message r m) s" and "interruptedFlag m"
    and "fst (onmessage pf r m s) = Resolved"
  shows "audioSourcesRef (step pf (Message r m) s) = []"
proof -
  from handler_has_context [OF assms(1)] assms(2)
  obtain c where c: "outputAudioContextRef s = Some c"
    by auto
  consider (none) "base64Audio m = None \<or> base64Audio m = Some []"
    | (err) x where "decodeError pf c m = Some x"
    | (ok) b where "decoded pf c m = Some b"
    using message_cases [of m pf c] by blast
  then show ?thesis
  proof cases
    case none
    then show ?thesis
      by (simp add: onmessage_no_audio handleInterruption_interrupted [OF assms(3) c])
  next
    case err
    with assms(4) show ?thesis
      by (simp add: onmessage_decodeError [OF c])
  next
    case ok
    let ?s2 = "schedule c b (s\<lparr> volumeLevel := r * 0.5 + 0.5 \<rparr>)"
    have "outputAudioContextRef ?s2 = Some c"
      by (simp add: schedule_fields c)
    then show ?thesis
      by (simp add: onmessage_decoded [OF c ok] handleInterruption_interrupted [OF assms(3)])
  qed
qed

lemma playingA_reachable: "reachable examplePlatform playingA"
proof -
  have "reachable examplePlatform (step examplePlatform (StartMirror exampleEnv) initial)"
    by (rule reachable_step [OF reachable_initial]) simp
  then have 1: "reachable examplePlatform started"
    by (simp add: started_def)
  have "reachable examplePlatform (step examplePlatform (ClockAdvance 0) started)"
    by (rule reachable_step [OF 1]) (simp add: started_eval)
  then have "reachable examplePlatform
      (step examplePlatform (Message 0 (audioMessage ''A'' None))
         (step examplePlatform (ClockAdvance 0) started))"
    by (rule reachable_step) (simp add: started_eval advanceClock_def)
  then show ?thesis
    by (simp add: playingA_def arrive_def)
qed

lemma tornDown_eval:
  "tornDown = started\<lparr> appState := IDLE, streamRef := None, liveTracks := {},
     inputAudioContextRef := Some \<lparr> currentTime = 0, isClosed = True \<rparr>,
     outputAudioContextRef := Some \<lparr> currentTime = 0, isClosed = True \<rparr>,
     intervals := {} \<rparr>"
  by (simp add: tornDown_def stopMirror_def started_eval closeContext_def Let_def)

subsection \<open>Claims\<close>


text \<open>
  C10. A message that carries no inline audio data (none at all, or the empty string,
  which the handler treats alike) and no interrupted flag leaves the whole state as it
  was, cursor, source set and output context included, and the handler resolves.
\<close>

theorem onmessage_frame:
  assumes "base64Audio message = None \<or> base64Audio message = Some []"
    and "\<not> interruptedFlag message"
  shows "onmessage pf rnd message s = (Resolved, s)"
  using assms by (simp add: onmessage_no_audio handleInterruption_def)

theorem onmessage_frame_witness:
  "(base64Audio emptyMessage = None \<or> base64Audio emptyMessage = Some [])
   \<and> \<not> interruptedFlag emptyMessage
   \<and> onmessage examplePlatform (1/2) emptyMessage started = (Resolved, started)"
proof -
  have a: "base64Audio emptyMessage = None \<or> base64Audio emptyMessage = Some []"
    by (simp add: base64Audio_def emptyMessage_def)
  have b: "\<not> interruptedFlag emptyMessage"
    by (simp add: interruptedFlag_def emptyMessage_def)
  show ?thesis
    using a b onmessage_frame [OF a b, of examplePlatform "1/2" started] by simp
qed


text \<open>
  C2. Late arrival. When a chunk that decodes arrives while the output clock is strictly
  past the cursor, the source node created for it is started at the clock's current
  time, not at the stale cursor; and whatever the cursor is, the start time is never
  earlier than the clock's current time.
\<close>

theorem late_arrival_starts_now:
  assumes "outputAudioContextRef s = Some ctx"
    and "decoded pf ctx message = Some audioBuffer"
  shows "fst (onmessage pf rnd message s) = Resolved
    \<and> (\<exists>t. startOf (snd (onmessage pf rnd message s)) (nextHandle s) = Some t
          \<and> currentTime ctx \<le> t
          \<and> (nextStartTimeRef s < currentTime ctx \<longrightarrow> t = currentTime ctx))"
proof -
  let ?s1 = "s\<lparr> volumeLevel := rnd * 0.5 + 0.5 \<rparr>"
  have "startOf (schedule ctx audioBuffer ?s1) (nextHandle ?s1)
      = Some (max (nextStartTimeRef ?s1) (currentTime ctx))"
    by (rule startOf_schedule)
  then have "startOf (snd (onmessage pf rnd message s)) (nextHandle s)
      = Some (max (nextStartTimeRef s) (currentTime ctx))"
    by (simp add: onmessage_decoded [OF assms] startOf_handleInterruption)
  then show ?thesis
    by (auto simp: onmessage_decoded [OF assms])
qed

theorem late_arrival_starts_now_witness:
  "outputAudioContextRef lateState = Some \<lparr> currentTime = 2, isClosed = False \<rparr>
   \<and> decoded examplePlatform \<lparr> currentTime = 2, isClosed = False \<rparr> (audioMessage ''A'' None)
       = Some bufferA
   \<and> nextStartTimeRef lateState < 2
   \<and> fst (onmessage examplePlatform 0 (audioMessage ''A'' None) lateState) = Resolved
   \<and> startOf (snd (onmessage examplePlatform 0 (audioMessage ''A'' None) lateState))
        (nextHandle lateState) = Some 2"
proof -
  have c: "outputAudioContextRef lateState = Some \<lparr> currentTime = 2, isClosed = False \<rparr>"
    by (simp add: lateState_def started_eval advanceClock_def)
  have d: "decoded examplePlatform \<lparr> currentTime = 2, isClosed = False \<rparr> (audioMessage ''A'' None)
       = Some bufferA"
    by (simp add: example_defs)
  have l: "nextStartTimeRef lateState < 2"
    by (simp add: lateState_def started_eval advanceClock_def)
  from late_arrival_starts_now [OF c d, of 0]
  obtain t where r: "fst (onmessage examplePlatform 0 (audioMessage ''A'' None) lateState) = Resolved"
    and t: "startOf (snd (onmessage examplePlatform 0 (audioMessage ''A'' None) lateState))
        (nextHandle lateState) = Some t"
    and e: "nextStartTimeRef lateState < currentTime \<lparr> currentTime = 2, isClosed = False \<rparr>
        \<longrightarrow> t = currentTime \<lparr> currentTime = 2, isClosed = False \<rparr>"
    by blast
  from e l have "t = 2" by simp
  with c d l r t show ?thesis by blast
qed

text \<open>
  C3. Interrupt postcondition. When the handler has processed a message that carries the
  interrupted flag (it resolved, and an output context is set), the source set is empty
  and the cursor equals the output clock's current time, whatever the set held before.
\<close>

theorem interrupt_postcondition:
  assumes "outputAudioContextRef s = Some c"
    and "interruptedFlag message"
    and "fst (onmessage pf rnd message s) = Resolved"
  shows "audioSourcesRef (snd (onmessage pf rnd message s)) = []
    \<and> nextStartTimeRef (snd (onmessage pf rnd message s)) = currentTime c
    \<and> outputAudioContextRef (snd (onmessage pf rnd message s)) = Some c"
proof -
  consider (none) "base64Audio message = None \<or> base64Audio message = Some []"
    | (err) e where "decodeError pf c message = Some e"
    | (ok) b where "decoded pf c message = Some b"
    using message_cases [of message pf c] by blast
  then show ?thesis
  proof cases
    case none
    then show ?thesis
      by (simp add: onmessage_no_audio handleInterruption_interrupted [OF assms(2) assms(1)]
          assms(1))
  next
    case err
    with assms(1,3) show ?thesis
      by (simp add: onmessage_decodeError)
  next
    case ok
    let ?s2 = "schedule c b (s\<lparr> volumeLevel := rnd * 0.5 + 0.5 \<rparr>)"
    have "outputAudioContextRef ?s2 = Some c"
      by (simp add: schedule_def Let_def assms(1))
    then show ?thesis
      by (simp add: onmessage_decoded [OF assms(1) ok] handleInterruption_interrupted [OF assms(2)])
  qed
qed

theorem interrupt_postcondition_witness:
  "outputAudioContextRef atInterrupt = Some \<lparr> currentTime = 3/10, isClosed = False \<rparr>
   \<and> interruptedFlag interruptMessage
   \<and> fst (onmessage examplePlatform 0 interruptMessage atInterrupt) = Resolved
   \<and> audioSourcesRef atInterrupt = [0]
   \<and> nextStartTimeRef atInterrupt = 1
   \<and> audioSourcesRef (snd (onmessage examplePlatform 0 interruptMessage atInterrupt)) = []
   \<and> nextStartTimeRef (snd (onmessage examplePlatform 0 interruptMessage atInterrupt)) = 3/10"
proof -
  have c: "outputAudioContextRef atInterrupt = Some \<lparr> currentTime = 3/10, isClosed = False \<rparr>"
    by (simp add: atInterrupt_def playingA_eval started_eval advanceClock_def)
  have i: "interruptedFlag interruptMessage"
    by (simp add: interruptedFlag_def interruptMessage_def)
  have n: "base64Audio interruptMessage = None \<or> base64Audio interruptMessage = Some []"
    by (simp add: base64Audio_def interruptMessage_def)
  have r: "fst (onmessage examplePlatform 0 interruptMessage atInterrupt) = Resolved"
    by (simp add: onmessage_no_audio [OF n])
  have b: "audioSourcesRef atInterrupt = [0] \<and> nextStartTimeRef atInterrupt = 1"
    by (simp add: atInterrupt_def playingA_eval started_eval advanceClock_def)
  from interrupt_postcondition [OF c i r]
  have "audioSourcesRef (snd (onmessage examplePlatform 0 interruptMessage atInterrupt)) = []
     \<and> nextStartTimeRef (snd (onmessage examplePlatform 0 interruptMessage atInterrupt))
        = currentTime \<lparr> currentTime = 3/10, isClosed = False \<rparr>"
    by blast
  then show ?thesis
    using c i r b by simp
qed

text \<open>
  C4. Interrupt is total and does not throw. For every state, and however \<open>stop()\<close>
  behaves on the members of the set, an interruption message resolves; every member of
  the set is stopped unless its \<open>stop()\<close> throws, in which case it is left as it was;
  the set is empty afterwards; and a chunk that arrives next is accepted at once: it is
  started at the clock's current time and is the only member of the set.
\<close>

theorem interrupt_total:
  assumes "base64Audio message = None \<or> base64Audio message = Some []"
    and "interruptedFlag message"
  shows "fst (onmessage pf rnd message s) = Resolved
    \<and> audioSourcesRef (snd (onmessage pf rnd message s)) = []
    \<and> (\<forall>h. nodes (snd (onmessage pf rnd message s)) h =
            (if h \<in> set (audioSourcesRef s) then map_option (tryStop pf) (nodes s h)
             else nodes s h))
    \<and> (\<forall>c b. outputAudioContextRef s = Some c \<and> decoded pf c next = Some b
              \<and> \<not> interruptedFlag next \<longrightarrow>
          fst (onmessage pf rnd' next (snd (onmessage pf rnd message s))) = Resolved
          \<and> startOf (snd (onmessage pf rnd' next (snd (onmessage pf rnd message s))))
               (nextHandle s) = Some (currentTime c)
          \<and> audioSourcesRef (snd (onmessage pf rnd' next (snd (onmessage pf rnd message s))))
               = [nextHandle s])"
proof -
  let ?s' = "handleInterruption pf message s"
  have r: "onmessage pf rnd message s = (Resolved, ?s')"
    using assms(1) by (rule onmessage_no_audio)
  have set0: "audioSourcesRef ?s' = []"
    using assms(2) by (simp add: handleInterruption_def Let_def split: option.split)
  have nd: "\<forall>h. nodes ?s' h =
            (if h \<in> set (audioSourcesRef s) then map_option (tryStop pf) (nodes s h)
             else nodes s h)"
    using assms(2) by (simp add: nodes_handleInterruption stopAll_nodes)
  have ready: "fst (onmessage pf rnd' next ?s') = Resolved
          \<and> startOf (snd (onmessage pf rnd' next ?s')) (nextHandle s) = Some (currentTime c)
          \<and> audioSourcesRef (snd (onmessage pf rnd' next ?s')) = [nextHandle s]"
    if c: "outputAudioContextRef s = Some c" and b: "decoded pf c next = Some b"
      and n: "\<not> interruptedFlag next" for c b
  proof -
    have s': "?s' = s\<lparr> nodes := nodes (stopAll pf (audioSourcesRef s) s),
        audioSourcesRef := [], nextStartTimeRef := currentTime c \<rparr>"
      using assms(2) c by (rule handleInterruption_interrupted)
    have c': "outputAudioContextRef ?s' = Some c"
      by (subst s') (simp add: c)
    have h': "nextHandle ?s' = nextHandle s"
      by (subst s') simp
    have t': "nextStartTimeRef ?s' = currentTime c"
      by (subst s') simp
    show ?thesis
      by (simp add: onmessage_decoded [OF c' b] handleInterruption_not [OF n]
          startOf_def schedule_def Let_def h' t' set0 setAdd_def)
  qed
  show ?thesis
    using set0 nd ready by (simp add: r)
qed

theorem interrupt_total_witness:
  "(base64Audio interruptMessage = None \<or> base64Audio interruptMessage = Some [])
   \<and> interruptedFlag interruptMessage
   \<and> audioSourcesRef staleState = [0, 1]
   \<and> fst (onmessage examplePlatform 0 interruptMessage staleState) = Resolved
   \<and> audioSourcesRef (snd (onmessage examplePlatform 0 interruptMessage staleState)) = []
   \<and> nodes (snd (onmessage examplePlatform 0 interruptMessage staleState)) 0
       = Some \<lparr> buffer = bufferA, startTime = Some 0, stopCalled = False, endedFired = True \<rparr>
   \<and> nodes (snd (onmessage examplePlatform 0 interruptMessage staleState)) 1
       = Some \<lparr> buffer = bufferB, startTime = Some 1, stopCalled = True, endedFired = False \<rparr>
   \<and> fst (onmessage examplePlatform 0 (audioMessage ''B'' None)
            (snd (onmessage examplePlatform 0 interruptMessage staleState))) = Resolved
   \<and> startOf (snd (onmessage examplePlatform 0 (audioMessage ''B'' None)
            (snd (onmessage examplePlatform 0 interruptMessage staleState)))) 2 = Some 0
   \<and> audioSourcesRef (snd (onmessage examplePlatform 0 (audioMessage ''B'' None)
            (snd (onmessage examplePlatform 0 interruptMessage staleState)))) = [2]"
proof -
  let ?r = "onmessage examplePlatform 0 interruptMessage staleState"
  let ?c = "\<lparr> currentTime = 0, isClosed = False \<rparr>"
  have n: "base64Audio interruptMessage = None \<or> base64Audio interruptMessage = Some []"
    by (simp add: base64Audio_def interruptMessage_def)
  have i: "interruptedFlag interruptMessage"
    by (simp add: interruptedFlag_def interruptMessage_def)
  have s: "audioSourcesRef staleState = [0, 1]"
    by (simp add: staleState_def)
  have h: "nextHandle staleState = 2"
    by (simp add: staleState_def)
  have c: "outputAudioContextRef staleState = Some ?c"
    by (simp add: staleState_def started_eval)
  have d: "decoded examplePlatform ?c (audioMessage ''B'' None) = Some bufferB"
    by (simp add: example_defs)
  have f: "\<not> interruptedFlag (audioMessage ''B'' None)"
    by (simp add: interruptedFlag_def audioMessage_def)
  note t = interrupt_total [OF n i, of examplePlatform 0 staleState "audioMessage ''B'' None" 0]
  from t have 1: "fst ?r = Resolved" and 2: "audioSourcesRef (snd ?r) = []"
    by blast+
  from t have nd: "\<And>h. nodes (snd ?r) h =
      (if h \<in> set (audioSourcesRef staleState)
       then map_option (tryStop examplePlatform) (nodes staleState h) else nodes staleState h)"
    by blast
  have 3: "nodes (snd ?r) 0
       = Some \<lparr> buffer = bufferA, startTime = Some 0, stopCalled = False, endedFired = True \<rparr>"
    by (subst nd) (simp add: staleState_def tryStop_def examplePlatform_def)
  have 4: "nodes (snd ?r) 1
       = Some \<lparr> buffer = bufferB, startTime = Some 1, stopCalled = True, endedFired = False \<rparr>"
    by (subst nd) (simp add: staleState_def tryStop_def examplePlatform_def)
  from t c d f
  have "fst (onmessage examplePlatform 0 (audioMessage ''B'' None) (snd ?r)) = Resolved
      \<and> startOf (snd (onmessage examplePlatform 0 (audioMessage ''B'' None) (snd ?r)))
           (nextHandle staleState) = Some (currentTime ?c)
      \<and> audioSourcesRef (snd (onmessage examplePlatform 0 (audioMessage ''B'' None) (snd ?r)))
           = [nextHandle staleState]"
    by blast
  then have 5: "fst (onmessage examplePlatform 0 (audioMessage ''B'' None) (snd ?r)) = Resolved
      \<and> startOf (snd (onmessage examplePlatform 0 (audioMessage ''B'' None) (snd ?r))) 2 = Some 0
      \<and> audioSourcesRef (snd (onmessage examplePlatform 0 (audioMessage ''B'' None) (snd ?r))) = [2]"
    by (simp add: h)
  show ?thesis
    using n i s 1 2 3 4 5 by blast
qed

text \<open>
  C1. Gapless scheduling. An enqueue of a chunk that decodes starts the chunk's buffer at
  \<open>startAt = max(cursor, now)\<close>, sets the cursor to \<open>startAt + bufferDuration\<close> and adds the
  new source to the set. For every sequence of such chunks, each arriving no later than
  the cursor stands at its arrival, the source of chunk \<open>i + 1\<close> starts exactly when the
  buffer of chunk \<open>i\<close> ends, \<open>start(i+1) = start(i) + d(i)\<close>, and start times follow the
  order of arrival.
\<close>

theorem gapless_scheduling:
  "(outputAudioContextRef s = Some ctx \<and> decoded pf ctx message = Some b
      \<and> \<not> interruptedFlag message \<longrightarrow>
      nodes (snd (onmessage pf rnd message s)) (nextHandle s)
        = Some \<lparr> buffer = b, startTime = Some (max (nextStartTimeRef s) (currentTime ctx)),
                 stopCalled = False, endedFired = False \<rparr>
      \<and> nextStartTimeRef (snd (onmessage pf rnd message s))
        = max (nextStartTimeRef s) (currentTime ctx) + duration b
      \<and> audioSourcesRef (snd (onmessage pf rnd message s))
        = setAdd (nextHandle s) (audioSourcesRef s))
   \<and> (onTime pf as s \<longrightarrow>
      (\<forall>i. Suc i < length as \<longrightarrow>
         (\<exists>n t. nodes (arriveAll pf as s) (nextHandle s + i) = Some n \<and> startTime n = Some t
            \<and> startOf (arriveAll pf as s) (nextHandle s + Suc i) = Some (t + duration (buffer n))))
      \<and> (\<forall>i j. i \<le> j \<and> j < length as \<longrightarrow>
         (\<exists>t u. startOf (arriveAll pf as s) (nextHandle s + i) = Some t
            \<and> startOf (arriveAll pf as s) (nextHandle s + j) = Some u \<and> t \<le> u)))"
proof (intro conjI impI allI)
  assume a: "outputAudioContextRef s = Some ctx \<and> decoded pf ctx message = Some b
      \<and> \<not> interruptedFlag message"
  then have r: "snd (onmessage pf rnd message s)
      = schedule ctx b (s\<lparr> volumeLevel := rnd * 0.5 + 0.5 \<rparr>)"
    by (simp add: onmessage_decoded handleInterruption_not)
  show "nodes (snd (onmessage pf rnd message s)) (nextHandle s)
        = Some \<lparr> buffer = b, startTime = Some (max (nextStartTimeRef s) (currentTime ctx)),
                 stopCalled = False, endedFired = False \<rparr>"
    by (simp add: r schedule_nodes)
  show "nextStartTimeRef (snd (onmessage pf rnd message s))
        = max (nextStartTimeRef s) (currentTime ctx) + duration b"
    by (simp add: r schedule_fields)
  show "audioSourcesRef (snd (onmessage pf rnd message s))
        = setAdd (nextHandle s) (audioSourcesRef s)"
    by (simp add: r schedule_fields)
next
  fix i
  assume "onTime pf as s" and "Suc i < length as"
  then show "\<exists>n t. nodes (arriveAll pf as s) (nextHandle s + i) = Some n \<and> startTime n = Some t
            \<and> startOf (arriveAll pf as s) (nextHandle s + Suc i) = Some (t + duration (buffer n))"
    by (rule arriveAll_gapless)
next
  fix i j
  assume "onTime pf as s" and "i \<le> j \<and> j < length as"
  then show "\<exists>t u. startOf (arriveAll pf as s) (nextHandle s + i) = Some t
            \<and> startOf (arriveAll pf as s) (nextHandle s + j) = Some u \<and> t \<le> u"
    using arriveAll_order [of pf as s j i] by blast
qed

theorem gapless_scheduling_witness:
  "onTime examplePlatform exampleArrivals started
   \<and> outputAudioContextRef beforeB = Some \<lparr> currentTime = 1/5, isClosed = False \<rparr>
   \<and> decoded examplePlatform \<lparr> currentTime = 1/5, isClosed = False \<rparr> (audioMessage ''B'' None)
       = Some bufferB
   \<and> \<not> interruptedFlag (audioMessage ''B'' None)
   \<and> nextStartTimeRef beforeB = 1
   \<and> startOf (snd (onmessage examplePlatform 0 (audioMessage ''B'' None) beforeB)) 1 = Some 1
   \<and> nextStartTimeRef (snd (onmessage examplePlatform 0 (audioMessage ''B'' None) beforeB)) = 3/2
   \<and> startOf (arriveAll examplePlatform exampleArrivals started) 0 = Some 0
   \<and> startOf (arriveAll examplePlatform exampleArrivals started) 1 = Some 1"
proof -
  let ?c = "\<lparr> currentTime = 1/5, isClosed = False \<rparr>"
  let ?B = "audioMessage ''B'' None"
  let ?S = "arriveAll examplePlatform exampleArrivals started"
  note g = gapless_scheduling [where s = beforeB and ctx = ?c and pf = examplePlatform
      and message = ?B and b = bufferB and rnd = 0]
  note g' = gapless_scheduling [where s = started and pf = examplePlatform
      and as = exampleArrivals]
  have o: "onTime examplePlatform exampleArrivals started"
    by (rule exampleArrivals_onTime)
  have c: "outputAudioContextRef beforeB = Some ?c"
    by (simp add: beforeB_eval)
  have d: "decoded examplePlatform ?c ?B = Some bufferB"
    by (simp add: example_defs)
  have f: "\<not> interruptedFlag ?B"
    by (simp add: interruptedFlag_def audioMessage_def)
  have k: "nextStartTimeRef beforeB = 1" and h: "nextHandle beforeB = 1"
    by (simp_all add: beforeB_eval playingA_eval)
  have db: "duration bufferB = 1/2"
    by (simp add: duration_def bufferB_def)
  from g c d f
  have 1: "nodes (snd (onmessage examplePlatform 0 ?B beforeB)) (nextHandle beforeB)
        = Some \<lparr> buffer = bufferB,
                 startTime = Some (max (nextStartTimeRef beforeB) (currentTime ?c)),
                 stopCalled = False, endedFired = False \<rparr>"
    and 2: "nextStartTimeRef (snd (onmessage examplePlatform 0 ?B beforeB))
        = max (nextStartTimeRef beforeB) (currentTime ?c) + duration bufferB"
    by blast+
  from 1 have 3: "startOf (snd (onmessage examplePlatform 0 ?B beforeB)) 1 = Some 1"
    by (simp add: startOf_def h k)
  from 2 have 4: "nextStartTimeRef (snd (onmessage examplePlatform 0 ?B beforeB)) = 3/2"
    by (simp add: k db)
  have l: "Suc 0 < length exampleArrivals"
    by (simp add: exampleArrivals_def)
  from g' o l obtain n t where n: "nodes ?S (nextHandle started + 0) = Some n"
    and t: "startTime n = Some t"
    and u: "startOf ?S (nextHandle started + Suc 0) = Some (t + duration (buffer n))"
    by blast
  have n0: "nodes ?S 0 = Some \<lparr> buffer = bufferA, startTime = Some 0,
                                    stopCalled = False, endedFired = False \<rparr>"
    by (simp add: exampleArrivals_eval)
  have h0: "nextHandle started = 0"
    by (simp add: started_eval)
  from n n0 t have "t = 0" and "buffer n = bufferA"
    by (auto simp: h0)
  with u have 5: "startOf ?S 1 = Some 1"
    by (simp add: h0 duration_def bufferA_def)
  from n0 have 6: "startOf ?S 0 = Some 0"
    by (simp add: startOf_def)
  show ?thesis
    using o c d f k 3 4 5 6 by blast
qed

text \<open>
  C7. Cursor invariant. A message without the interrupted flag never moves the cursor
  back, whichever branch the handler takes. A processed interruption sets the cursor to
  the output clock's current time, and so does a session start that gets as far as
  creating the audio contexts. No other event lowers the cursor; hence along every run
  without interruption and session start the cursor is monotonically non-decreasing.
\<close>

theorem cursor_invariant:
  "(\<not> interruptedFlag message \<longrightarrow>
      nextStartTimeRef s \<le> nextStartTimeRef (step pf (Message rnd message) s))
   \<and> (interruptedFlag message \<and> outputAudioContextRef s = Some c
        \<and> fst (onmessage pf rnd message s) = Resolved \<longrightarrow>
      nextStartTimeRef (step pf (Message rnd message) s) = currentTime c)
   \<and> (userMedia env = Inr stream \<and> videoPlay env = None \<longrightarrow>
      outputAudioContextRef (step pf (StartMirror env) s) = Some (newOutputCtx env)
      \<and> nextStartTimeRef (step pf (StartMirror env) s) = currentTime (newOutputCtx env))
   \<and> (nextStartTimeRef (step pf e s) < nextStartTimeRef s \<longrightarrow>
      (\<exists>r m. e = Message r m \<and> interruptedFlag m) \<or> (\<exists>v. e = StartMirror v))
   \<and> (list_all (\<lambda>e. \<not> resets e) es \<longrightarrow>
      nextStartTimeRef s \<le> nextStartTimeRef (run pf es s))"
proof -
  have p1: "nextStartTimeRef s \<le> nextStartTimeRef (step pf (Message rnd message) s)"
    if "\<not> interruptedFlag message"
    using that by (simp add: onmessage_cursor_mono)
  have p2: "nextStartTimeRef (step pf (Message rnd message) s) = currentTime c"
    if i: "interruptedFlag message" and c: "outputAudioContextRef s = Some c"
      and r: "fst (onmessage pf rnd message s) = Resolved"
  proof -
    consider (none) "base64Audio message = None \<or> base64Audio message = Some []"
      | (err) x where "decodeError pf c message = Some x"
      | (ok) b where "decoded pf c message = Some b"
      using message_cases [of message pf c] by blast
    then show ?thesis
    proof cases
      case none
      then show ?thesis
        by (simp add: onmessage_no_audio handleInterruption_interrupted [OF i c])
    next
      case err
      with r show ?thesis
        by (simp add: onmessage_decodeError [OF c])
    next
      case ok
      let ?s2 = "schedule c b (s\<lparr> volumeLevel := rnd * 0.5 + 0.5 \<rparr>)"
      have "outputAudioContextRef ?s2 = Some c"
        by (simp add: schedule_fields c)
      then show ?thesis
        by (simp add: onmessage_decoded [OF c ok] handleInterruption_interrupted [OF i])
    qed
  qed
  have p3: "outputAudioContextRef (step pf (StartMirror env) s) = Some (newOutputCtx env)
      \<and> nextStartTimeRef (step pf (StartMirror env) s) = currentTime (newOutputCtx env)"
    if "userMedia env = Inr stream" and "videoPlay env = None"
    using that by (simp add: startMirror_def Let_def)
  have p4: "(\<exists>r m. e = Message r m \<and> interruptedFlag m) \<or> (\<exists>v. e = StartMirror v)"
    if d: "nextStartTimeRef (step pf e s) < nextStartTimeRef s"
  proof -
    from d step_cursor_mono [of e s pf] have "resets e"
      by fastforce
    then show ?thesis
      by (cases e) (simp_all add: resets_def)
  qed
  have p5: "nextStartTimeRef s \<le> nextStartTimeRef (run pf es s)"
    if "list_all (\<lambda>e. \<not> resets e) es"
    using that by (rule run_cursor_mono)
  show ?thesis
    using p1 p2 p3 p4 p5 by blast
qed

theorem cursor_invariant_witness:
  "\<not> interruptedFlag (audioMessage ''A'' None)
   \<and> nextStartTimeRef lateState = 0
   \<and> 0 \<le> nextStartTimeRef (step examplePlatform (Message 0 (audioMessage ''A'' None)) lateState)
   \<and> interruptedFlag interruptMessage
   \<and> outputAudioContextRef atInterrupt = Some \<lparr> currentTime = 3/10, isClosed = False \<rparr>
   \<and> fst (onmessage examplePlatform 0 interruptMessage atInterrupt) = Resolved
   \<and> nextStartTimeRef atInterrupt = 1
   \<and> nextStartTimeRef (step examplePlatform (Message 0 interruptMessage) atInterrupt) = 3/10
   \<and> userMedia exampleEnv = Inr [0, 1] \<and> videoPlay exampleEnv = None
   \<and> nextStartTimeRef (step examplePlatform (StartMirror exampleEnv) atInterrupt) = 0
   \<and> list_all (\<lambda>e. \<not> resets e) quietRun
   \<and> 0 \<le> nextStartTimeRef (run examplePlatform quietRun started)"
proof -
  let ?A = "audioMessage ''A'' None"
  let ?c = "\<lparr> currentTime = 3/10, isClosed = False \<rparr>"
  have f: "\<not> interruptedFlag ?A"
    by (simp add: interruptedFlag_def audioMessage_def)
  have k: "nextStartTimeRef lateState = 0"
    by (simp add: lateState_def started_eval advanceClock_def)
  have i: "interruptedFlag interruptMessage"
    by (simp add: interruptedFlag_def interruptMessage_def)
  have n: "base64Audio interruptMessage = None \<or> base64Audio interruptMessage = Some []"
    by (simp add: base64Audio_def interruptMessage_def)
  have c: "outputAudioContextRef atInterrupt = Some ?c"
    by (simp add: atInterrupt_def playingA_eval started_eval advanceClock_def)
  have r: "fst (onmessage examplePlatform 0 interruptMessage atInterrupt) = Resolved"
    by (simp add: onmessage_no_audio [OF n])
  have k1: "nextStartTimeRef atInterrupt = 1"
    by (simp add: atInterrupt_def playingA_eval started_eval advanceClock_def)
  have u: "userMedia exampleEnv = Inr [0, 1]" and v: "videoPlay exampleEnv = None"
    by (simp_all add: exampleEnv_def)
  have q: "list_all (\<lambda>e. \<not> resets e) quietRun"
    by (simp add: quietRun_def resets_def f)
  have k0: "nextStartTimeRef started = 0"
    by (simp add: started_eval)
  from cursor_invariant [where message = ?A and s = lateState and pf = examplePlatform
      and rnd = 0] f k
  have 1: "0 \<le> nextStartTimeRef (step examplePlatform (Message 0 ?A) lateState)"
    by simp
  from cursor_invariant [where message = interruptMessage and s = atInterrupt
      and pf = examplePlatform and rnd = 0 and c = ?c and env = exampleEnv
      and stream = "[0, 1]"] i c r u v
  have 2: "nextStartTimeRef (step examplePlatform (Message 0 interruptMessage) atInterrupt)
        = currentTime ?c"
    and 3: "nextStartTimeRef (step examplePlatform (StartMirror exampleEnv) atInterrupt)
        = currentTime (newOutputCtx exampleEnv)"
    by blast+
  from cursor_invariant [where s = started and pf = examplePlatform and es = quietRun] q k0
  have 4: "0 \<le> nextStartTimeRef (run examplePlatform quietRun started)"
    by simp
  from 2 have w2: "nextStartTimeRef (step examplePlatform (Message 0 interruptMessage) atInterrupt)
        = 3/10"
    by simp
  from 3 have w3: "nextStartTimeRef (step examplePlatform (StartMirror exampleEnv) atInterrupt) = 0"
    by (simp add: exampleEnv_def)
  show ?thesis
    using f k 1 i c r k1 w2 u v w3 q 4 by blast
qed

text \<open>
  C8. Source set invariant. In every state the component can reach, each handle in the
  set denotes a source that was started, whose \<open>ended\<close> event has not been delivered
  (it has not finished) and that was not stopped. A handle leaves the set only through
  its own \<open>ended\<close> listener or through a message with the interrupted flag; the listener
  always removes it, and a processed interruption clears the whole set.
\<close>

theorem active_source_invariant:
  assumes "reachable pf s"
  shows "(\<forall>h \<in> set (audioSourcesRef s).
            \<exists>n. nodes s h = Some n \<and> startTime n \<noteq> None \<and> \<not> endedFired n \<and> \<not> stopCalled n)
    \<and> (\<forall>e h. h \<in> set (audioSourcesRef s) \<and> h \<notin> set (audioSourcesRef (step pf e s)) \<longrightarrow>
            e = NodeEnded h \<or> (\<exists>r m. e = Message r m \<and> interruptedFlag m))
    \<and> (\<forall>h. h \<notin> set (audioSourcesRef (step pf (NodeEnded h) s)))
    \<and> (\<forall>r m. enabled (Message r m) s \<and> interruptedFlag m
            \<and> fst (onmessage pf r m s) = Resolved \<longrightarrow>
            audioSourcesRef (step pf (Message r m) s) = [])"
proof -
  from assms have "sourceInv s"
    by (rule reachable_sourceInv)
  then have 1: "\<forall>h \<in> set (audioSourcesRef s).
            \<exists>n. nodes s h = Some n \<and> startTime n \<noteq> None \<and> \<not> endedFired n \<and> \<not> stopCalled n"
    by (auto simp: sourceInv_def list_all_iff playing_def split: option.splits)
  have 2: "\<forall>e h. h \<in> set (audioSourcesRef s) \<and> h \<notin> set (audioSourcesRef (step pf e s)) \<longrightarrow>
            e = NodeEnded h \<or> (\<exists>r m. e = Message r m \<and> interruptedFlag m)"
    using removed_only_by by blast
  have 3: "\<forall>h. h \<notin> set (audioSourcesRef (step pf (NodeEnded h) s))"
    by (simp only: ended_removes simp_thms)
  have 4: "\<forall>r m. enabled (Message r m) s \<and> interruptedFlag m
            \<and> fst (onmessage pf r m s) = Resolved \<longrightarrow>
            audioSourcesRef (step pf (Message r m) s) = []"
    using interruption_clears [OF assms] by blast
  show ?thesis
    using 1 2 3 4 by blast
qed

theorem active_source_invariant_witness:
  "reachable examplePlatform playingA
   \<and> audioSourcesRef playingA = [0]
   \<and> (\<exists>n. nodes playingA 0 = Some n \<and> startTime n \<noteq> None \<and> \<not> endedFired n \<and> \<not> stopCalled n)
   \<and> audioSourcesRef (step examplePlatform (NodeEnded 0) playingA) = []
   \<and> enabled (Message 0 interruptMessage) playingA \<and> interruptedFlag interruptMessage
   \<and> fst (onmessage examplePlatform 0 interruptMessage playingA) = Resolved
   \<and> audioSourcesRef (step examplePlatform (Message 0 interruptMessage) playingA) = []"
proof -
  note t = active_source_invariant [OF playingA_reachable]
  have s: "audioSourcesRef playingA = [0]"
    by (simp add: playingA_eval)
  from t s have 1: "\<exists>n. nodes playingA 0 = Some n \<and> startTime n \<noteq> None \<and> \<not> endedFired n
      \<and> \<not> stopCalled n"
    by simp
  have 2: "audioSourcesRef (step examplePlatform (NodeEnded 0) playingA) = []"
    by (simp add: playingA_eval endedListener_def setDelete_def)
  have e: "enabled (Message 0 interruptMessage) playingA"
    by (simp add: playingA_eval started_eval)
  have i: "interruptedFlag interruptMessage"
    by (simp add: interruptedFlag_def interruptMessage_def)
  have n: "base64Audio interruptMessage = None \<or> base64Audio interruptMessage = Some []"
    by (simp add: base64Audio_def interruptMessage_def)
  have r: "fst (onmessage examplePlatform 0 interruptMessage playingA) = Resolved"
    by (simp add: onmessage_no_audio [OF n])
  from t e i r have 3: "audioSourcesRef (step examplePlatform (Message 0 interruptMessage) playingA) = []"
    by blast
  show ?thesis
    using playingA_reachable s 1 2 e i r 3 by blast
qed

text \<open>
  C9. Local-only teardown. \<open>stopMirror\<close> leaves the session object and both session refs
  exactly as they were: it calls nothing on the session. What it does is local: the
  tracks of the stream are stopped and the stream ref is cleared, the input and the
  output audio context are closed, the video-frame interval is cleared, the app state
  becomes \<open>IDLE\<close> and the volume level 0. Cursor, source set and source nodes are left
  alone.
\<close>

theorem local_teardown:
  "activeSessionRef (stopMirror s) = activeSessionRef s
   \<and> sessionPromiseRef (stopMirror s) = sessionPromiseRef s
   \<and> streamRef (stopMirror s) = None
   \<and> (\<forall>stream. streamRef s = Some stream \<longrightarrow>
         liveTracks (stopMirror s) = liveTracks s - set stream)
   \<and> (\<forall>c. inputAudioContextRef s = Some c \<longrightarrow>
         inputAudioContextRef (stopMirror s) = Some (c\<lparr> isClosed := True \<rparr>))
   \<and> (\<forall>c. outputAudioContextRef s = Some c \<longrightarrow>
         outputAudioContextRef (stopMirror s) = Some (c\<lparr> isClosed := True \<rparr>))
   \<and> (\<forall>i. videoIntervalRef s = Some i \<and> i \<noteq> 0 \<longrightarrow>
         intervals (stopMirror s) = intervals s - {i})
   \<and> appState (stopMirror s) = IDLE
   \<and> volumeLevel (stopMirror s) = 0
   \<and> nextStartTimeRef (stopMirror s) = nextStartTimeRef s
   \<and> audioSourcesRef (stopMirror s) = audioSourcesRef s
   \<and> nodes (stopMirror s) = nodes s"
proof -
  have 1: "streamRef (stopMirror s) = None"
    by (simp add: stopMirror_def Let_def split: option.split)
  have 2: "liveTracks (stopMirror s) = liveTracks s - set stream" if "streamRef s = Some stream"
    for stream
    using that by (simp add: stopMirror_def Let_def split: option.split)
  have 4: "intervals (stopMirror s) = intervals s - {i}" if "videoIntervalRef s = Some i" "i \<noteq> 0"
    for i
    using that by (simp add: stopMirror_def Let_def split: option.split)
  have 5: "appState (stopMirror s) = IDLE" "volumeLevel (stopMirror s) = 0"
    by (simp_all add: stopMirror_def Let_def split: option.split)
  show ?thesis
    using 1 2 4 5 by (simp add: stopMirror_refs stopMirror_scheduler closeContext_def)
qed

theorem local_teardown_witness:
  "streamRef started = Some [0, 1] \<and> liveTracks started = {0, 1}
   \<and> liveTracks (stopMirror started) = {}
   \<and> outputAudioContextRef started = Some \<lparr> currentTime = 0, isClosed = False \<rparr>
   \<and> outputAudioContextRef (stopMirror started) = Some \<lparr> currentTime = 0, isClosed = True \<rparr>
   \<and> inputAudioContextRef started = Some \<lparr> currentTime = 0, isClosed = False \<rparr>
   \<and> inputAudioContextRef (stopMirror started) = Some \<lparr> currentTime = 0, isClosed = True \<rparr>
   \<and> videoIntervalRef started = Some 3 \<and> intervals started = {3}
   \<and> intervals (stopMirror started) = {}
   \<and> sessionPromiseRef (stopMirror started) = Some \<lparr> sessionId = 7, closeCalled = False \<rparr>
   \<and> appState (stopMirror started) = IDLE"
proof -
  note t = local_teardown [of started]
  have a: "streamRef started = Some [0, 1]" "liveTracks started = {0, 1}"
    "outputAudioContextRef started = Some \<lparr> currentTime = 0, isClosed = False \<rparr>"
    "inputAudioContextRef started = Some \<lparr> currentTime = 0, isClosed = False \<rparr>"
    "videoIntervalRef started = Some 3" "intervals started = {3}"
    "sessionPromiseRef started = Some \<lparr> sessionId = 7, closeCalled = False \<rparr>"
    by (simp_all add: started_eval)
  from t a(1) have "liveTracks (stopMirror started) = liveTracks started - set [0, 1]"
    by blast
  then have 1: "liveTracks (stopMirror started) = {}"
    by (simp add: a)
  from t a(3) have 2: "outputAudioContextRef (stopMirror started)
      = Some (\<lparr> currentTime = 0, isClosed = False \<rparr>\<lparr> isClosed := True \<rparr>)"
    by blast
  from t a(4) have 3: "inputAudioContextRef (stopMirror started)
      = Some (\<lparr> currentTime = 0, isClosed = False \<rparr>\<lparr> isClosed := True \<rparr>)"
    by blast
  have "videoIntervalRef started = Some 3 \<and> (3::nat) \<noteq> 0"
    by (simp add: a)
  with t have "intervals (stopMirror started) = intervals started - {3}"
    by blast
  then have 4: "intervals (stopMirror started) = {}"
    by (simp add: a)
  from t have 5: "sessionPromiseRef (stopMirror started) = sessionPromiseRef started"
    and 6: "appState (stopMirror started) = IDLE"
    by blast+
  show ?thesis
    using a 1 2 3 4 5 6 by simp
qed

text \<open>
  C5. Enqueue after teardown. \<open>stopMirror\<close> closes the output context but leaves
  \<open>outputAudioContextRef\<close> set, so the handler's guard \<open>if (!ctx) return\<close> does not fire
  after teardown. Evaluated on the state after \<open>startMirror\<close> and \<open>stopMirror\<close>: a chunk that
  decodes is scheduled on the closed context, the cursor moves from 0 to 1 and the set
  gains the new source.
\<close>

theorem enqueue_after_teardown_schedules:
  "outputAudioContextRef tornDown = Some \<lparr> currentTime = 0, isClosed = True \<rparr>
   \<and> audioSourcesRef tornDown = [] \<and> nextStartTimeRef tornDown = 0
   \<and> nodes tornDown 0 = None
   \<and> fst (onmessage examplePlatform 0 (audioMessage ''A'' None) tornDown) = Resolved
   \<and> audioSourcesRef (snd (onmessage examplePlatform 0 (audioMessage ''A'' None) tornDown)) = [0]
   \<and> nextStartTimeRef (snd (onmessage examplePlatform 0 (audioMessage ''A'' None) tornDown)) = 1
   \<and> startOf (snd (onmessage examplePlatform 0 (audioMessage ''A'' None) tornDown)) 0 = Some 0"
  by (simp add: tornDown_eval started_eval onmessage_def base64Audio_def audioMessage_def
      examplePlatform_def handleInterruption_def interruptedFlag_def schedule_def Let_def
      setAdd_def duration_def startOf_def)

text \<open>
  C6, as the code has it. When decoding a chunk fails, nothing catches the exception:
  the handler's promise rejects with the decode error and the rest of the handler,
  interruption handling included, does not run. The chunk is dropped in the sense that
  cursor, source set, source nodes and output context are unchanged; only the volume
  level of the visualisation hook, set before decoding, has changed.
\<close>

theorem decode_failure_rejects:
  assumes "outputAudioContextRef s = Some ctx"
    and "decodeError pf ctx message = Some e"
  shows "onmessage pf rnd message s = (Rejected e, s\<lparr> volumeLevel := rnd * 0.5 + 0.5 \<rparr>)
    \<and> nextStartTimeRef (snd (onmessage pf rnd message s)) = nextStartTimeRef s
    \<and> audioSourcesRef (snd (onmessage pf rnd message s)) = audioSourcesRef s
    \<and> nodes (snd (onmessage pf rnd message s)) = nodes s
    \<and> outputAudioContextRef (snd (onmessage pf rnd message s)) = outputAudioContextRef s"
  by (simp add: onmessage_decodeError [OF assms])

theorem decode_failure_rejects_witness:
  "outputAudioContextRef atInterrupt = Some \<lparr> currentTime = 3/10, isClosed = False \<rparr>
   \<and> decodeError examplePlatform \<lparr> currentTime = 3/10, isClosed = False \<rparr> badMessage
       = Some DecodeFailure
   \<and> interruptedFlag badMessage
   \<and> fst (onmessage examplePlatform 0 badMessage atInterrupt) = Rejected DecodeFailure
   \<and> audioSourcesRef (snd (onmessage examplePlatform 0 badMessage atInterrupt)) = [0]
   \<and> nextStartTimeRef (snd (onmessage examplePlatform 0 badMessage atInterrupt)) = 1"
proof -
  have c: "outputAudioContextRef atInterrupt = Some \<lparr> currentTime = 3/10, isClosed = False \<rparr>"
    by (simp add: atInterrupt_def playingA_eval started_eval advanceClock_def)
  have d: "decodeError examplePlatform \<lparr> currentTime = 3/10, isClosed = False \<rparr> badMessage
       = Some DecodeFailure"
    by (simp add: decodeError_def base64Audio_def audioMessage_def badMessage_def
        examplePlatform_def)
  have i: "interruptedFlag badMessage"
    by (simp add: interruptedFlag_def audioMessage_def badMessage_def)
  have b: "audioSourcesRef atInterrupt = [0]" "nextStartTimeRef atInterrupt = 1"
    by (simp_all add: atInterrupt_def playingA_eval started_eval advanceClock_def)
  note t = decode_failure_rejects [OF c d, of 0]
  from t have 1: "fst (onmessage examplePlatform 0 badMessage atInterrupt) = Rejected DecodeFailure"
    by simp
  from t have 2: "audioSourcesRef (snd (onmessage examplePlatform 0 badMessage atInterrupt))
      = audioSourcesRef atInterrupt"
    and 3: "nextStartTimeRef (snd (onmessage examplePlatform 0 badMessage atInterrupt))
      = nextStartTimeRef atInterrupt"
    by blast+
  show ?thesis
    using c d i 1 2 3 b by simp
qed

text \<open>
  C6, as stated, fails: at a message whose payload does not decode, the handler does not
  absorb the error but rejects with it, and the interruption signalled by the same
  message is not processed (the set still holds the playing source).
\<close>

theorem decode_failure_counterexample:
  "decodeError examplePlatform \<lparr> currentTime = 3/10, isClosed = False \<rparr> badMessage
     = Some DecodeFailure
   \<and> outputAudioContextRef atInterrupt = Some \<lparr> currentTime = 3/10, isClosed = False \<rparr>
   \<and> fst (onmessage examplePlatform 0 badMessage atInterrupt) = Rejected DecodeFailure
   \<and> fst (onmessage examplePlatform 0 badMessage atInterrupt) \<noteq> Resolved
   \<and> interruptedFlag badMessage
   \<and> audioSourcesRef (snd (onmessage examplePlatform 0 badMessage atInterrupt)) = [0]"
  by (simp add: atInterrupt_def interruptedFlag_def playingA_eval started_eval advanceClock_def onmessage_def
      base64Audio_def audioMessage_def badMessage_def examplePlatform_def decodeError_def)

end
